theory Spec2Isabelle
  imports Complex_Main "HOL-Library.Log_Nat"
begin

section \<open>The Dark Souls scene loader (src/dks/scenes.ts)\<close>

text \<open>
  A shallow embedding of \<^verbatim>\<open>src/dks/scenes.ts\<close>: the progress-aggregating
  \<^verbatim>\<open>DataFetcher\<close>, the \<^verbatim>\<open>ResourceSystem\<close> namespace, the
  \<^verbatim>\<open>ModelHolder\<close>, the \<^verbatim>\<open>DKSRenderer\<close> aggregate and the assembly
  procedure \<^verbatim>\<open>DKSSceneDesc.createScene\<close> with its two texture loaders.

  The binary decoders (\<^verbatim>\<open>BYML\<close>, \<^verbatim>\<open>MSB\<close>, \<^verbatim>\<open>DCX\<close>, \<^verbatim>\<open>TPF\<close>,
  \<^verbatim>\<open>BHD\<close>, \<^verbatim>\<open>BND3\<close>, \<^verbatim>\<open>FLVER\<close>) and the network fetch live in other
  modules; the file only calls them. They are parameters of the model (the record
  \<open>Collaborators\<close> below), and every theorem holds for all of them.
\<close>

subsection \<open>Data\<close>

text \<open>
  An \<^verbatim>\<open>ArrayBufferSlice\<close> is a sequence of bytes; a HOL \<open>char\<close> is one byte. The file
  never reads a buffer itself: it hands buffers to the decoders.
\<close>

type_synonym ArrayBufferSlice = string

text \<open>\<^verbatim>\<open>interface CRG1Arc { Files: { [filename: string]: ArrayBufferSlice } }\<close>: the
  object's own keys in enumeration order, each with its value.\<close>

record CRG1Arc =
  Files :: "(string \<times> ArrayBufferSlice) list"

text \<open>
  What the file reads of the decoders' results: \<^verbatim>\<open>msb.models[i].type\<close>,
  \<^verbatim>\<open>msb.models[i].flverPath\<close>, \<^verbatim>\<open>flver_.batches.length\<close>, \<^verbatim>\<open>tpf.textures\<close>,
  \<^verbatim>\<open>tpf.textures[0].name\<close>, \<^verbatim>\<open>bhd.fileRecords\<close>, \<^verbatim>\<open>r.name\<close>, \<^verbatim>\<open>r.buffer\<close>.
  A batch and a texture's image are opaque here.
\<close>

record Model =
  type :: int
  flverPath :: string

record MSB =
  models :: "Model list"

record FLVER =
  batches :: "nat list"

record Texture =
  name :: string
  image :: ArrayBufferSlice

record TPF =
  textures :: "Texture list"

record FileRecord =
  name :: string
  buffer :: ArrayBufferSlice

record BHD =
  fileRecords :: "FileRecord list"

text \<open>The result of \<^verbatim>\<open>BND3.parse\<close> is only passed on by this file: its block names.\<close>

type_synonym BND3 = "string list"

subsection \<open>ResourceSystem\<close>

text \<open>
  \<^verbatim>\<open>public files = new Map<string, ArrayBufferSlice>()\<close>. A JavaScript \<^verbatim>\<open>Map\<close> with
  string keys compares keys by value; \<^verbatim>\<open>get\<close> of a key that was never set is
  \<^verbatim>\<open>undefined\<close>, here \<open>None\<close>.
\<close>

record ResourceSystem =
  files :: "string \<rightharpoonup> ArrayBufferSlice"

definition new_ResourceSystem :: ResourceSystem where
  "new_ResourceSystem = \<lparr>files = Map.empty\<rparr>"

text \<open>\<^verbatim>\<open>for (i < filenames.length) this.files.set(filenames[i], n.Files[filenames[i]])\<close>
  with \<^verbatim>\<open>filenames = Object.keys(n.Files)\<close>.\<close>

definition mountCRG1 :: "ResourceSystem \<Rightarrow> CRG1Arc \<Rightarrow> ResourceSystem" where
  "mountCRG1 rs n =
     fold (\<lambda>filename rs'.
             case map_of (Files n) filename of
               Some b \<Rightarrow> rs'\<lparr>files := (files rs')(filename \<mapsto> b)\<rparr>
             | None \<Rightarrow> rs')
          (map fst (Files n)) rs"

definition mountFile :: "ResourceSystem \<Rightarrow> string \<Rightarrow> ArrayBufferSlice \<Rightarrow> ResourceSystem" where
  "mountFile rs fileName buf = rs\<lparr>files := (files rs)(fileName \<mapsto> buf)\<rparr>"

definition lookupFile :: "ResourceSystem \<Rightarrow> string \<Rightarrow> ArrayBufferSlice option" where
  "lookupFile rs filename = files rs filename"

subsection \<open>DataFetcher\<close>

text \<open>
  A JavaScript number is an IEEE 754 binary64 value: \<^verbatim>\<open>NaN\<close>, one of the two infinities, or
  a finite double, given here by the real number it denotes (the two zeros are not told
  apart: no operation of this file distinguishes them).
\<close>

datatype number = NaN | PosInfinity | NegInfinity | Num real

text \<open>
  The result of an arithmetic operation is the exact result rounded to the nearest double,
  ties to the even significand. \<open>floor_log2 x\<close> is the binary exponent of a positive \<open>x\<close>,
  \<open>ulp x\<close> the spacing of the doubles around \<open>x\<close>: 52 fraction bits below the exponent,
  and the exponent of the subnormal range, \<open>-1022\<close>, at the bottom. A result that rounds to
  \<open>2 ^ 1024\<close> or beyond overflows to an infinity.
\<close>

definition floor_log2 :: "real \<Rightarrow> int" where
  "floor_log2 x = (if 1 \<le> x then bitlen \<lfloor>x\<rfloor> - 1 else - bitlen (\<lceil>1 / x\<rceil> - 1))"

definition round_half_even :: "real \<Rightarrow> int" where
  "round_half_even q =
     (let f = \<lfloor>q\<rfloor>; r = q - of_int f
      in if r < 1 / 2 then f else if 1 / 2 < r then f + 1 else if even f then f else f + 1)"

definition ulp :: "real \<Rightarrow> real" where
  "ulp x = 2 powi (max (floor_log2 \<bar>x\<bar>) (- 1022) - 52)"

definition round_binary64 :: "real \<Rightarrow> real" where
  "round_binary64 x = (if x = 0 then 0 else of_int (round_half_even (x / ulp x)) * ulp x)"

definition to_number :: "real \<Rightarrow> number" where
  "to_number x =
     (let r = round_binary64 x
      in if 2 ^ 1024 \<le> r then PosInfinity
         else if r \<le> - (2 ^ 1024) then NegInfinity
         else Num r)"


text \<open>The operator \<^verbatim>\<open>+\<close> on two numbers.\<close>

fun js_add :: "number \<Rightarrow> number \<Rightarrow> number" where
  "js_add NaN y = NaN"
| "js_add x NaN = NaN"
| "js_add PosInfinity NegInfinity = NaN"
| "js_add NegInfinity PosInfinity = NaN"
| "js_add PosInfinity y = PosInfinity"
| "js_add x PosInfinity = PosInfinity"
| "js_add NegInfinity y = NegInfinity"
| "js_add x NegInfinity = NegInfinity"
| "js_add (Num x) (Num y) = to_number (x + y)"

text \<open>
  The operator \<^verbatim>\<open>/\<close> with an array length on the right: a natural number below
  \<open>2 ^ 32\<close>, which converts to a double exactly. A zero divided by zero is \<^verbatim>\<open>NaN\<close>; any
  other finite number divided by zero is the infinity of its sign.
\<close>

fun js_divide :: "number \<Rightarrow> nat \<Rightarrow> number" where
  "js_divide NaN n = NaN"
| "js_divide PosInfinity n = PosInfinity"
| "js_divide NegInfinity n = NegInfinity"
| "js_divide (Num x) n =
     (if n = 0 then (if x = 0 then NaN else if 0 < x then PosInfinity else NegInfinity)
      else to_number (x / real n))"

text \<open>
  \<^verbatim>\<open>fileProgressables\<close> holds the registered tasks; a task is represented by its current
  \<^verbatim>\<open>progress\<close>, a finite number. \<^verbatim>\<open>progressMeter\<close> is the progress sink, represented by
  the values \<^verbatim>\<open>progressMeter.setProgress\<close> has received, oldest first.
\<close>

record DataFetcher =
  fileProgressables :: "real list"
  progressMeter :: "number list"

definition new_DataFetcher :: DataFetcher where
  "new_DataFetcher = \<lparr>fileProgressables = [], progressMeter = []\<rparr>"

text \<open>\<^verbatim>\<open>let n = 0; for (i < length) n += fileProgressables[i].progress; return n / length\<close>\<close>

definition calcProgress :: "DataFetcher \<Rightarrow> number" where
  "calcProgress df =
     (let n = fold (\<lambda>i n. js_add n (Num (fileProgressables df ! i)))
                   [0..<length (fileProgressables df)] (Num 0)
      in js_divide n (length (fileProgressables df)))"

definition setProgress :: "DataFetcher \<Rightarrow> DataFetcher" where
  "setProgress df = df\<lparr>progressMeter := progressMeter df @ [calcProgress df]\<rparr>"

text \<open>
  \<^verbatim>\<open>fetchData(path)\<close>: the new task \<open>p\<close> (given by the progress it starts with) is pushed,
  its \<^verbatim>\<open>onProgress\<close> callback is installed, and \<^verbatim>\<open>setProgress\<close> runs.
\<close>

definition fetchData :: "DataFetcher \<Rightarrow> real \<Rightarrow> DataFetcher" where
  "fetchData df p = setProgress (df\<lparr>fileProgressables := fileProgressables df @ [p]\<rparr>)"

text \<open>
  The callback \<^verbatim>\<open>p.onProgress = () => { this.setProgress(); }\<close> of the task at index \<open>i\<close>,
  fired by the download when that task's progress has become \<open>v\<close>. Only a task that was
  pushed has the callback, so an index past the list stands for no task.
\<close>

definition onProgress :: "DataFetcher \<Rightarrow> nat \<Rightarrow> real \<Rightarrow> DataFetcher" where
  "onProgress df i v =
     (if i < length (fileProgressables df)
      then setProgress (df\<lparr>fileProgressables := (fileProgressables df)[i := v]\<rparr>)
      else df)"

text \<open>
  \<^verbatim>\<open>calcProgress\<close> and \<^verbatim>\<open>setProgress\<close> are private: all a fetcher ever does is a sequence
  of \<^verbatim>\<open>fetchData\<close> calls and progress callbacks, starting from the constructor's state.
\<close>

datatype fetcher_event = FetchData real | OnProgress nat real

fun fetcher_step :: "DataFetcher \<Rightarrow> fetcher_event \<Rightarrow> DataFetcher" where
  "fetcher_step df (FetchData p) = fetchData df p"
| "fetcher_step df (OnProgress i v) = onProgress df i v"

definition fetcher_run :: "fetcher_event list \<Rightarrow> DataFetcher" where
  "fetcher_run evs = foldl fetcher_step new_DataFetcher evs"

text \<open>
  The sum the loop of \<^verbatim>\<open>calcProgress\<close> accumulates over a task list: from 0, left to
  right, every addition rounded.
\<close>

definition js_sum :: "real list \<Rightarrow> number" where
  "js_sum ps = foldl js_add (Num 0) (map Num ps)"






subsection \<open>Errors, effects and the collaborators\<close>

text \<open>
  Everything that makes \<^verbatim>\<open>createScene\<close> reject: a download that fails, an exception
  thrown inside a decoder (with its message), and a failed \<^verbatim>\<open>assert\<close> of this file. The
  three assertions of \<^verbatim>\<open>loadTextureBHD\<close> are told apart by the line they stand on.
\<close>

datatype assertion =
    Name_endsWith_tpf_dcx
  | Textures_length_is_1
  | Key1_equals_key2

datatype exn =
    Rejected string
  | Thrown string
  | AssertFail assertion

text \<open>
  The calls the file makes on the outside world, in the order it makes them:
  \<^verbatim>\<open>dataFetcher.fetchData(url)\<close>, \<^verbatim>\<open>resourceSystem.lookupFile(path)\<close> and
  \<^verbatim>\<open>console.log(mtdBnd)\<close>.
\<close>

datatype event =
    Fetch string
  | Lookup string
  | ConsoleLog BND3

text \<open>A computation that may throw: the events it caused, and the exception or the result.\<close>

type_synonym 'a io = "event list \<times> (exn + 'a)"

definition ok :: "'a \<Rightarrow> 'a io" where
  "ok x = ([], Inr x)"

definition throw :: "exn \<Rightarrow> 'a io" where
  "throw e = ([], Inl e)"

text \<open>Sequencing: an exception ends the computation, keeping the events so far.\<close>

definition bind_io :: "'a io \<Rightarrow> ('a \<Rightarrow> 'b io) \<Rightarrow> 'b io" where
  "bind_io m k =
     (case m of
        (t, Inl e) \<Rightarrow> (t, Inl e)
      | (t, Inr x) \<Rightarrow> (case k x of (t', r) \<Rightarrow> (t @ t', r)))"

text \<open>\<^verbatim>\<open>for (let i = 0; i < n; i++) body\<close> over the indices \<open>[0..<n]\<close>, threading the
  variables the body assigns.\<close>

fun for_io :: "nat list \<Rightarrow> (nat \<Rightarrow> 's \<Rightarrow> 's io) \<Rightarrow> 's \<Rightarrow> 's io" where
  "for_io [] body s = ok s"
| "for_io (i # is) body s = bind_io (body i s) (for_io is body)"

text \<open>
  The collaborators. A decoder returns its result or throws (\<open>Inl\<close> its message). Where
  the file passes the result of \<^verbatim>\<open>lookupFile\<close> straight to a decoder, the decoder's argument
  is an option: the file has no check for \<^verbatim>\<open>undefined\<close> anywhere, so what happens on an
  absent file is the decoder's doing.

  \<open>fetch url\<close> is the outcome of the download \<^verbatim>\<open>fetchData(url, abortSignal)\<close>; and
  \<open>arc_settles_first\<close> says which of the two phase-1 promises settles first (the
  archive's mount and the loose file's mount run in that order).
\<close>

record Collaborators =
  fetch :: "string \<Rightarrow> string + ArrayBufferSlice"
  arc_settles_first :: bool
  BYML_parse :: "ArrayBufferSlice \<Rightarrow> string + CRG1Arc"
  MSB_parse :: "ArrayBufferSlice option \<Rightarrow> string \<Rightarrow> string + MSB"
  DCX_decompressBuffer :: "ArrayBufferSlice option \<Rightarrow> string + ArrayBufferSlice"
  TPF_parse :: "ArrayBufferSlice \<Rightarrow> string + TPF"
  BHD_parse :: "ArrayBufferSlice option \<Rightarrow> ArrayBufferSlice option \<Rightarrow> string + BHD"
  BND3_parse :: "ArrayBufferSlice option \<Rightarrow> string + BND3"
  FLVER_parse :: "ArrayBufferSlice \<Rightarrow> string + FLVER"

definition decoded :: "string + 'a \<Rightarrow> 'a io" where
  "decoded r = (case r of Inl msg \<Rightarrow> throw (Thrown msg) | Inr x \<Rightarrow> ok x)"

text \<open>Modelled from the spec: \<^verbatim>\<open>assert\<close> of \<^verbatim>\<open>../util\<close> (not under src/): "Assertions as
  fatal error signals", a failed assertion throws.\<close>

definition assert :: "assertion \<Rightarrow> bool \<Rightarrow> unit io" where
  "assert a b = (if b then ok () else throw (AssertFail a))"

definition lookupFile_io :: "ResourceSystem \<Rightarrow> string \<Rightarrow> ArrayBufferSlice option io" where
  "lookupFile_io rs filename = ([Lookup filename], Inr (lookupFile rs filename))"

definition console_log :: "BND3 \<Rightarrow> unit io" where
  "console_log x = ([ConsoleLog x], Inr ())"

subsection \<open>JavaScript arrays and strings\<close>

text \<open>
  An array with holes, \<^verbatim>\<open>(T | undefined)[]\<close>: a hole and \<^verbatim>\<open>undefined\<close> are \<open>None\<close>.
  Reading past the end gives \<^verbatim>\<open>undefined\<close>; assigning past the end extends the array
  with holes.
\<close>

definition js_get :: "'a option list \<Rightarrow> nat \<Rightarrow> 'a option" where
  "js_get xs i = (if i < length xs then xs ! i else None)"

definition js_set :: "'a option list \<Rightarrow> nat \<Rightarrow> 'a \<Rightarrow> 'a option list" where
  "js_set xs i v =
     (if i < length xs then xs[i := Some v]
      else xs @ replicate (i - length xs) None @ [Some v])"

text \<open>\<^verbatim>\<open>s.endsWith(searchString)\<close>\<close>

definition endsWith :: "string \<Rightarrow> string \<Rightarrow> bool" where
  "endsWith s searchString =
     (length searchString \<le> length s
      \<and> drop (length s - length searchString) s = searchString)"

text \<open>\<^verbatim>\<open>s.replace(/\\/g, '')\<close>: every backslash (byte 0x5C) is removed.\<close>

definition replace_backslashes :: "string \<Rightarrow> string" where
  "replace_backslashes s = filter (\<lambda>ch. ch \<noteq> CHR 0x5C) s"

text \<open>
  \<^verbatim>\<open>s.replace(pattern, replacement)\<close> with a string pattern: the first occurrence of the
  pattern is replaced, and only the first. (The file's only replacement is the empty
  string, so the \<^verbatim>\<open>$\<close> patterns of a replacement play no part.)
\<close>

fun replace :: "string \<Rightarrow> string \<Rightarrow> string \<Rightarrow> string" where
  "replace [] pat rep = (if pat = [] then rep else [])"
| "replace (ch # s) pat rep =
     (if take (length pat) (ch # s) = pat then rep @ drop (length pat) (ch # s)
      else ch # replace s pat rep)"

text \<open>
  \<^verbatim>\<open>s.toLowerCase()\<close>. A name is a sequence of code units below 0x100, and a \<open>char\<close>
  stands for the code unit of the same number. Among these the letters A to Z and the
  capitals U+00C0 to U+00DE (without the multiplication sign U+00D7) are mapped to the
  letter 0x20 above; every other one is its own lower case.
\<close>

definition toLowerCase :: "string \<Rightarrow> string" where
  "toLowerCase s =
     map (\<lambda>ch. case map_of
                    (zip (''ABCDEFGHIJKLMNOPQRSTUVWXYZ'' @
                            [CHR 0xC0, CHR 0xC1, CHR 0xC2, CHR 0xC3, CHR 0xC4, CHR 0xC5,
                             CHR 0xC6, CHR 0xC7, CHR 0xC8, CHR 0xC9, CHR 0xCA, CHR 0xCB,
                             CHR 0xCC, CHR 0xCD, CHR 0xCE, CHR 0xCF, CHR 0xD0, CHR 0xD1,
                             CHR 0xD2, CHR 0xD3, CHR 0xD4, CHR 0xD5, CHR 0xD6, CHR 0xD8,
                             CHR 0xD9, CHR 0xDA, CHR 0xDB, CHR 0xDC, CHR 0xDD, CHR 0xDE])
                         (''abcdefghijklmnopqrstuvwxyz'' @
                            [CHR 0xE0, CHR 0xE1, CHR 0xE2, CHR 0xE3, CHR 0xE4, CHR 0xE5,
                             CHR 0xE6, CHR 0xE7, CHR 0xE8, CHR 0xE9, CHR 0xEA, CHR 0xEB,
                             CHR 0xEC, CHR 0xED, CHR 0xEE, CHR 0xEF, CHR 0xF0, CHR 0xF1,
                             CHR 0xF2, CHR 0xF3, CHR 0xF4, CHR 0xF5, CHR 0xF6, CHR 0xF8,
                             CHR 0xF9, CHR 0xFA, CHR 0xFB, CHR 0xFC, CHR 0xFD, CHR 0xFE])) ch of
                  Some lower \<Rightarrow> lower
                | None \<Rightarrow> ch) s"

subsection \<open>Holders and renderers\<close>

text \<open>
  Modelled from the spec: \<^verbatim>\<open>DDSTextureHolder\<close> of \<^verbatim>\<open>./dds\<close> (not under src/) accepts
  decoded images. The holder is represented by the textures handed to
  \<^verbatim>\<open>addTextures\<close>, in the order of registration.
\<close>

type_synonym DDSTextureHolder = "Texture list"

definition new_DDSTextureHolder :: DDSTextureHolder where
  "new_DDSTextureHolder = []"

definition addTextures :: "DDSTextureHolder \<Rightarrow> Texture list \<Rightarrow> DDSTextureHolder" where
  "addTextures th txs = th @ txs"

text \<open>\<^verbatim>\<open>new FLVERData(device, flver[i])\<close> of \<^verbatim>\<open>./render\<close>: the GPU resource of a model,
  represented by the geometry it was made from.\<close>

datatype FLVERData = FLVERData FLVER

record ModelHolder =
  flverData :: "FLVERData option list"

text \<open>\<^verbatim>\<open>for (i < flver.length) if (flver[i] !== undefined) this.flverData[i] = new FLVERData(device, flver[i])\<close>\<close>

definition new_ModelHolder :: "FLVER option list \<Rightarrow> ModelHolder" where
  "new_ModelHolder flver =
     \<lparr>flverData =
        fold (\<lambda>i fd. case js_get flver i of
                        Some f \<Rightarrow> js_set fd i (FLVERData f)
                      | None \<Rightarrow> fd)
             [0..<length flver] []\<rparr>"

text \<open>\<^verbatim>\<open>new MSBRenderer(device, textureHolder, modelHolder, msb)\<close> of \<^verbatim>\<open>./render\<close>: the
  sub-scene renderer, represented by the arguments of its constructor.\<close>

datatype MSBRenderer = MSBRenderer DDSTextureHolder ModelHolder MSB

record DKSRenderer =
  sceneRenderers :: "MSBRenderer list"
  textureHolder :: DDSTextureHolder
  modelHolder :: ModelHolder

definition new_DKSRenderer :: "DDSTextureHolder \<Rightarrow> ModelHolder \<Rightarrow> DKSRenderer" where
  "new_DKSRenderer th mh = \<lparr>sceneRenderers = [], textureHolder = th, modelHolder = mh\<rparr>"

definition addSceneRenderer :: "DKSRenderer \<Rightarrow> MSBRenderer \<Rightarrow> DKSRenderer" where
  "addSceneRenderer r sceneRenderer = r\<lparr>sceneRenderers := sceneRenderers r @ [sceneRenderer]\<rparr>"

text \<open>
  The \<^verbatim>\<open>destroy(device)\<close> calls that reach a collaborator, in the order they are made:
  the base class's \<^verbatim>\<open>super.destroy(device)\<close> (\<^verbatim>\<open>BasicRendererHelper\<close>), a sub-scene
  renderer's, the texture holder's, and a model's \<^verbatim>\<open>FLVERData\<close>.
\<close>

datatype release =
    BasicRendererHelper_destroy
  | MSBRenderer_destroy MSBRenderer
  | DDSTextureHolder_destroy DDSTextureHolder
  | FLVERData_destroy FLVERData

text \<open>\<^verbatim>\<open>for (i < flverData.length) if (flverData[i] !== undefined) flverData[i].destroy(device)\<close>\<close>

definition ModelHolder_destroy :: "ModelHolder \<Rightarrow> release list" where
  "ModelHolder_destroy mh =
     fold (\<lambda>i out. case js_get (flverData mh) i of
                      Some d \<Rightarrow> out @ [FLVERData_destroy d]
                    | None \<Rightarrow> out)
          [0..<length (flverData mh)] []"

definition DKSRenderer_destroy :: "DKSRenderer \<Rightarrow> release list" where
  "DKSRenderer_destroy r =
     [BasicRendererHelper_destroy]
     @ fold (\<lambda>i out. out @ [MSBRenderer_destroy (sceneRenderers r ! i)])
            [0..<length (sceneRenderers r)] []
     @ [DDSTextureHolder_destroy (textureHolder r)]
     @ ModelHolder_destroy (modelHolder r)"

subsection \<open>Phase 1: the two downloads\<close>

definition pathBase :: string where
  "pathBase = ''dks''"

text \<open>
  An \<^verbatim>\<open>async\<close> function that awaits one download: called, it runs up to its
  \<^verbatim>\<open>await\<close> (the download is issued) and returns a promise; the rest of its body runs
  when the download has settled, on the namespace as it is then.
\<close>

record async =
  issued :: "event list"
  settled :: "ResourceSystem \<Rightarrow> exn + ResourceSystem"

definition fetchCRG1Arc :: "Collaborators \<Rightarrow> string \<Rightarrow> async" where
  "fetchCRG1Arc c archiveName =
     \<lparr>issued = [Fetch (pathBase @ ''/'' @ archiveName)],
      settled = (\<lambda>resourceSystem.
        case fetch c (pathBase @ ''/'' @ archiveName) of
          Inl reason \<Rightarrow> Inl (Rejected reason)
        | Inr buf \<Rightarrow>
            (case BYML_parse c buf of
               Inl msg \<Rightarrow> Inl (Thrown msg)
             | Inr crg1Arc \<Rightarrow> Inr (mountCRG1 resourceSystem crg1Arc)))\<rparr>"

definition fetchLoose :: "Collaborators \<Rightarrow> string \<Rightarrow> async" where
  "fetchLoose c fileName =
     \<lparr>issued = [Fetch (pathBase @ ''/'' @ fileName)],
      settled = (\<lambda>resourceSystem.
        case fetch c (pathBase @ ''/'' @ fileName) of
          Inl reason \<Rightarrow> Inl (Rejected reason)
        | Inr buf \<Rightarrow> Inr (mountFile resourceSystem fileName buf))\<rparr>"

text \<open>
  \<^verbatim>\<open>await Promise.all([a, b])\<close>: both functions have been called, so both downloads are
  issued, before anything is awaited. The bodies then run in the order the downloads
  settle; the first rejection rejects the whole, and only when both have run does the
  caller go on.
\<close>

definition await_Promise_all ::
  "bool \<Rightarrow> async \<Rightarrow> async \<Rightarrow> ResourceSystem \<Rightarrow> ResourceSystem io" where
  "await_Promise_all first_settles_first a b rs =
     (issued a @ issued b,
      if first_settles_first
      then (case settled a rs of Inl e \<Rightarrow> Inl e | Inr rs' \<Rightarrow> settled b rs')
      else (case settled b rs of Inl e \<Rightarrow> Inl e | Inr rs' \<Rightarrow> settled a rs'))"

subsection \<open>DKSSceneDesc\<close>

definition loadTextureTPFDCX ::
  "Collaborators \<Rightarrow> DDSTextureHolder \<Rightarrow> ResourceSystem \<Rightarrow> string \<Rightarrow> DDSTextureHolder io" where
  "loadTextureTPFDCX c th resourceSystem baseName =
     bind_io (lookupFile_io resourceSystem (baseName @ ''.tpf.dcx'')) (\<lambda>buf.
     bind_io (decoded (DCX_decompressBuffer c buf)) (\<lambda>decompressed.
     bind_io (decoded (TPF_parse c decompressed)) (\<lambda>tpf.
     ok (addTextures th (textures tpf)))))"

text \<open>The body of the loop of \<^verbatim>\<open>loadTextureBHD\<close>, for the record \<open>r\<close>.\<close>

definition loadTextureBHD_record ::
  "Collaborators \<Rightarrow> FileRecord \<Rightarrow> DDSTextureHolder \<Rightarrow> DDSTextureHolder io" where
  "loadTextureBHD_record c r th =
     bind_io (assert Name_endsWith_tpf_dcx (endsWith (FileRecord.name r) ''.tpf.dcx'')) (\<lambda>_.
     bind_io (decoded (DCX_decompressBuffer c (Some (buffer r)))) (\<lambda>decompressed.
     bind_io (decoded (TPF_parse c decompressed)) (\<lambda>tpf.
     bind_io (assert Textures_length_is_1 (length (textures tpf) = 1)) (\<lambda>_.
     let key1 = toLowerCase (replace (replace_backslashes (FileRecord.name r)) ''.tpf.dcx'' []);
         key2 = toLowerCase (Texture.name (textures tpf ! 0))
     in
     bind_io (assert Key1_equals_key2 (key1 = key2)) (\<lambda>_.
     ok (addTextures th (textures tpf)))))))"

definition loadTextureBHD ::
  "Collaborators \<Rightarrow> DDSTextureHolder \<Rightarrow> ResourceSystem \<Rightarrow> string \<Rightarrow> DDSTextureHolder io" where
  "loadTextureBHD c th resourceSystem baseName =
     bind_io (lookupFile_io resourceSystem (baseName @ ''.tpfbhd'')) (\<lambda>bhdBuffer.
     bind_io (lookupFile_io resourceSystem (baseName @ ''.tpfbdt'')) (\<lambda>bdtBuffer.
     bind_io (decoded (BHD_parse c bhdBuffer bdtBuffer)) (\<lambda>bhd.
     for_io [0..<length (fileRecords bhd)]
       (\<lambda>i th'. loadTextureBHD_record c (fileRecords bhd ! i) th') th)))"

text \<open>
  The model loop of \<^verbatim>\<open>createScene\<close> (lines 186 to 194): the body for index \<open>i\<close>, and the
  loop from the empty array \<^verbatim>\<open>flver\<close>.
\<close>

definition createScene_model ::
  "Collaborators \<Rightarrow> ResourceSystem \<Rightarrow> MSB \<Rightarrow> nat \<Rightarrow> FLVER option list \<Rightarrow> FLVER option list io" where
  "createScene_model c resourceSystem msb i flver =
     (if type (models msb ! i) = 0 then
        bind_io (lookupFile_io resourceSystem (flverPath (models msb ! i))) (\<lambda>flverBuffer.
        bind_io (decoded (DCX_decompressBuffer c flverBuffer)) (\<lambda>decompressed.
        bind_io (decoded (FLVER_parse c decompressed)) (\<lambda>flver'.
        if length (batches flver') > 0 then ok (js_set flver i flver') else ok flver)))
      else ok flver)"

definition createScene_models ::
  "Collaborators \<Rightarrow> ResourceSystem \<Rightarrow> MSB \<Rightarrow> FLVER option list io" where
  "createScene_models c resourceSystem msb =
     for_io [0..<length (models msb)] (createScene_model c resourceSystem msb) []"

definition createScene :: "Collaborators \<Rightarrow> string \<Rightarrow> DKSRenderer io" where
  "createScene c this_id =
     (let arcName = this_id @ ''_arc.crg1'' in
      bind_io (await_Promise_all (arc_settles_first c)
                 (fetchCRG1Arc c arcName) (fetchLoose c ''mtd/Mtd.mtdbnd'')
                 new_ResourceSystem) (\<lambda>resourceSystem.
      let textureHolder = new_DDSTextureHolder;
          msbPath = ''/map/MapStudio/'' @ this_id @ ''.msb''
      in
      bind_io (lookupFile_io resourceSystem msbPath) (\<lambda>msbBuffer.
      bind_io (decoded (MSB_parse c msbBuffer this_id)) (\<lambda>msb.
      bind_io (lookupFile_io resourceSystem ''mtd/Mtd.mtdbnd'') (\<lambda>mtdBuffer.
      bind_io (decoded (BND3_parse c mtdBuffer)) (\<lambda>mtdBnd.
      bind_io (console_log mtdBnd) (\<lambda>_.
      bind_io (createScene_models c resourceSystem msb) (\<lambda>flver.
      let modelHolder = new_ModelHolder flver;
          mapKey = take 3 this_id
      in
      bind_io (loadTextureBHD c textureHolder resourceSystem
                 (''/map/'' @ mapKey @ ''/'' @ mapKey @ ''_0000'')) (\<lambda>textureHolder.
      bind_io (loadTextureBHD c textureHolder resourceSystem
                 (''/map/'' @ mapKey @ ''/'' @ mapKey @ ''_0001'')) (\<lambda>textureHolder.
      bind_io (loadTextureBHD c textureHolder resourceSystem
                 (''/map/'' @ mapKey @ ''/'' @ mapKey @ ''_0002'')) (\<lambda>textureHolder.
      bind_io (loadTextureBHD c textureHolder resourceSystem
                 (''/map/'' @ mapKey @ ''/'' @ mapKey @ ''_0003'')) (\<lambda>textureHolder.
      bind_io (loadTextureTPFDCX c textureHolder resourceSystem
                 (''/map/'' @ mapKey @ ''/'' @ mapKey @ ''_9999'')) (\<lambda>textureHolder.
      let sceneRenderer = MSBRenderer textureHolder modelHolder msb;
          renderer = new_DKSRenderer textureHolder modelHolder
      in ok (addSceneRenderer renderer sceneRenderer))))))))))))))"

subsection \<open>A concrete scene\<close>

text \<open>
  Small collaborators on which the definitions can be run: the scene
  \<^verbatim>\<open>m10_01_00_00\<close> whose archive holds a placement table with one model entry (a
  model file of two batches) and one entry of another kind, four texture banks of one
  record each and the loose container. The toy codec is the identity on a buffer and
  throws on \<^verbatim>\<open>undefined\<close>, as every decoder here does (they read their input); the
  toy texture decoder yields one texture named by the payload; the toy bank decoder
  yields one record named by the header bytes.
\<close>

definition sample_msb :: MSB where
  "sample_msb =
     \<lparr>models = [\<lparr>type = 0, flverPath = ''/model/a.flver.dcx''\<rparr>,
                \<lparr>type = 1, flverPath = ''/model/b.flver.dcx''\<rparr>]\<rparr>"

definition sample_archive :: CRG1Arc where
  "sample_archive =
     \<lparr>Files =
        [(''/map/MapStudio/m10_01_00_00.msb'', ''msb''),
         (''/model/a.flver.dcx'', ''bb''),
         (''/map/m10/m10_0000.tpfbhd'', ''X.tpf.dcx''),
         (''/map/m10/m10_0000.tpfbdt'', ''x''),
         (''/map/m10/m10_0001.tpfbhd'', ''Wall.tpf.dcx''),
         (''/map/m10/m10_0001.tpfbdt'', ''wall''),
         (''/map/m10/m10_0002.tpfbhd'', ''b.tpf.dcx''),
         (''/map/m10/m10_0002.tpfbdt'', ''B''),
         (''/map/m10/m10_0003.tpfbhd'', ''c.tpf.dcx''),
         (''/map/m10/m10_0003.tpfbdt'', ''c''),
         (''/map/m10/m10_9999.tpf.dcx'', ''z'')]\<rparr>"

definition sample :: Collaborators where
  "sample =
     \<lparr>fetch = (\<lambda>url. if url = ''dks/m10_01_00_00_arc.crg1'' then Inr ''arc''
                    else if url = ''dks/mtd/Mtd.mtdbnd'' then Inr ''mtd''
                    else Inl ''404''),
      arc_settles_first = True,
      BYML_parse = (\<lambda>b. Inr sample_archive),
      MSB_parse = (\<lambda>b sceneId. case b of None \<Rightarrow> Inl ''TypeError'' | Some x \<Rightarrow> Inr sample_msb),
      DCX_decompressBuffer = (\<lambda>b. case b of None \<Rightarrow> Inl ''TypeError'' | Some x \<Rightarrow> Inr x),
      TPF_parse = (\<lambda>b. Inr \<lparr>textures = [\<lparr>Texture.name = b, image = b\<rparr>]\<rparr>),
      BHD_parse = (\<lambda>h d. case h of
                     None \<Rightarrow> Inl ''TypeError''
                   | Some hb \<Rightarrow> (case d of
                       None \<Rightarrow> Inl ''TypeError''
                     | Some db \<Rightarrow> Inr \<lparr>fileRecords = [\<lparr>name = hb, buffer = db\<rparr>]\<rparr>)),
      BND3_parse = (\<lambda>b. case b of None \<Rightarrow> Inl ''TypeError'' | Some x \<Rightarrow> Inr [x]),
      FLVER_parse = (\<lambda>b. Inr \<lparr>batches = map of_char b\<rparr>)\<rparr>"

text \<open>The same scene when the download of the loose material file fails.\<close>

definition sample_offline :: Collaborators where
  "sample_offline =
     sample\<lparr>fetch := (\<lambda>url. if url = ''dks/mtd/Mtd.mtdbnd'' then Inl ''offline''
                            else fetch sample url)\<rparr>"

text \<open>A texture decoder that yields two textures whose names have nothing to do with
  the file's name, and a namespace holding one loose container.\<close>

definition sample_two_textures :: Collaborators where
  "sample_two_textures =
     sample\<lparr>TPF_parse := (\<lambda>b. Inr \<lparr>textures = [\<lparr>Texture.name = ''first'', image = b\<rparr>,
                                                 \<lparr>Texture.name = ''second'', image = b\<rparr>]\<rparr>)\<rparr>"

definition sample_loose_namespace :: ResourceSystem where
  "sample_loose_namespace = mountFile new_ResourceSystem ''/map/m10/m10_9999.tpf.dcx'' ''z''"

text \<open>The same scene with a placement table whose one model entry names a file that
  the archive does not hold.\<close>

definition sample_missing :: Collaborators where
  "sample_missing =
     sample\<lparr>MSB_parse := (\<lambda>b sceneId. case b of
                  None \<Rightarrow> Inl ''TypeError''
                | Some x \<Rightarrow> Inr \<lparr>models = [\<lparr>type = 0, flverPath = ''/model/missing.flver.dcx''\<rparr>]\<rparr>)\<rparr>"

text \<open>The same scene with a material decoder that returns another container.\<close>

definition sample_other_mtd :: Collaborators where
  "sample_other_mtd = sample\<lparr>BND3_parse := (\<lambda>b. Inr [''other''])\<rparr>"

text \<open>A renderer with one sub-scene, one texture and one model.\<close>

definition sample_renderer :: DKSRenderer where
  "sample_renderer =
     addSceneRenderer
       (new_DKSRenderer [\<lparr>Texture.name = ''x'', image = ''x''\<rparr>]
                        (new_ModelHolder [Some \<lparr>batches = [1]\<rparr>]))
       (MSBRenderer [\<lparr>Texture.name = ''x'', image = ''x''\<rparr>]
                    (new_ModelHolder [Some \<lparr>batches = [1]\<rparr>]) sample_msb)"

text \<open>What phase 1 leaves in the namespace for the concrete scene, and what
  \<^verbatim>\<open>createScene\<close> does and returns on it.\<close>

definition sample_namespace :: ResourceSystem where
  "sample_namespace =
     mountFile (mountCRG1 new_ResourceSystem sample_archive) ''mtd/Mtd.mtdbnd'' ''mtd''"

definition sample_trace :: "event list" where
  "sample_trace =
     [Fetch ''dks/m10_01_00_00_arc.crg1'', Fetch ''dks/mtd/Mtd.mtdbnd'',
      Lookup ''/map/MapStudio/m10_01_00_00.msb'', Lookup ''mtd/Mtd.mtdbnd'',
      ConsoleLog [''mtd''], Lookup ''/model/a.flver.dcx'',
      Lookup ''/map/m10/m10_0000.tpfbhd'', Lookup ''/map/m10/m10_0000.tpfbdt'',
      Lookup ''/map/m10/m10_0001.tpfbhd'', Lookup ''/map/m10/m10_0001.tpfbdt'',
      Lookup ''/map/m10/m10_0002.tpfbhd'', Lookup ''/map/m10/m10_0002.tpfbdt'',
      Lookup ''/map/m10/m10_0003.tpfbhd'', Lookup ''/map/m10/m10_0003.tpfbdt'',
      Lookup ''/map/m10/m10_9999.tpf.dcx'']"

definition sample_textures :: DDSTextureHolder where
  "sample_textures =
     [\<lparr>Texture.name = ''x'', image = ''x''\<rparr>,
      \<lparr>Texture.name = ''wall'', image = ''wall''\<rparr>,
      \<lparr>Texture.name = ''B'', image = ''B''\<rparr>,
      \<lparr>Texture.name = ''c'', image = ''c''\<rparr>,
      \<lparr>Texture.name = ''z'', image = ''z''\<rparr>]"

definition sample_scene :: DKSRenderer where
  "sample_scene =
     \<lparr>sceneRenderers =
        [MSBRenderer sample_textures
           \<lparr>flverData = [Some (FLVERData \<lparr>batches = [98, 98]\<rparr>)]\<rparr> sample_msb],
      textureHolder = sample_textures,
      modelHolder = \<lparr>flverData = [Some (FLVERData \<lparr>batches = [98, 98]\<rparr>)]\<rparr>\<rparr>"

subsection \<open>Words of the specification\<close>

text \<open>The paths a run looked up in the namespace, in order.\<close>

fun lookups :: "event list \<Rightarrow> string list" where
  "lookups [] = []"
| "lookups (Lookup p # es) = p # lookups es"
| "lookups (e # es) = lookups es"

text \<open>
  The specification's normalisation of a record's declared name: "strip path separators,
  strip the suffix, lower-case". The path separator of these names is the backslash.
\<close>

definition spec_strip_suffix :: "string \<Rightarrow> string \<Rightarrow> string" where
  "spec_strip_suffix s suffix =
     (if endsWith s suffix then take (length s - length suffix) s else s)"

definition spec_declared_key :: "string \<Rightarrow> string" where
  "spec_declared_key declared =
     toLowerCase (spec_strip_suffix (replace_backslashes declared) ''.tpf.dcx'')"

text \<open>The specification's path convention for the texture files of a scene:
  \<^verbatim>\<open>/map/<mapGroup>/<mapGroup><rest>\<close>, "where mapGroup = first 3 characters of sceneId".\<close>

definition spec_bank_path :: "string \<Rightarrow> string \<Rightarrow> string" where
  "spec_bank_path sceneId rest = ''/map/'' @ take 3 sceneId @ ''/'' @ take 3 sceneId @ rest"

section \<open>Theorems\<close>

subsection \<open>Sequencing\<close>

lemma bind_io_Inl [simp]: "bind_io (t, Inl e) k = (t, Inl e)"
  by (simp add: bind_io_def)

lemma bind_io_Inr [simp]: "bind_io (t, Inr x) k = (t @ fst (k x), snd (k x))"
  by (simp add: bind_io_def split: prod.splits)

lemma bind_io_ok [simp]: "bind_io (ok x) k = k x"
  by (simp add: ok_def)

lemma bind_io_throw [simp]: "bind_io (throw e) k = throw e"
  by (simp add: throw_def)

lemma bind_io_InrE:
  assumes "bind_io m k = (tr, Inr y)"
  obtains t1 x t2 where "m = (t1, Inr x)" "k x = (t2, Inr y)" "tr = t1 @ t2"
proof (cases m)
  case (Pair t1 r)
  show ?thesis
  proof (cases r)
    case (Inl e)
    with Pair assms show ?thesis by simp
  next
    case (Inr x)
    from assms Pair Inr have a: "tr = t1 @ fst (k x)" and b: "snd (k x) = Inr y"
      by auto
    from b have "k x = (fst (k x), Inr y)" by (metis prod.collapse)
    with Pair Inr a that show ?thesis by blast
  qed
qed

lemma bind_io_assoc:
  "bind_io (bind_io m f) g = bind_io m (\<lambda>x. bind_io (f x) g)"
proof (cases m)
  case (Pair t r)
  show ?thesis
  proof (cases r)
    case (Inl e)
    with Pair show ?thesis by simp
  next
    case (Inr x)
    obtain t2 r2 where fx: "f x = (t2, r2)" by (cases "f x")
    show ?thesis using Pair Inr fx by (cases r2) simp_all
  qed
qed

lemma decoded_Inr_iff [simp]: "decoded r = (t, Inr x) \<longleftrightarrow> t = [] \<and> r = Inr x"
  by (cases r) (auto simp: decoded_def ok_def throw_def)

lemma decoded_Inr [simp]: "decoded (Inr x) = ok x"
  by (simp add: decoded_def)

lemma decoded_Inl [simp]: "decoded (Inl m) = throw (Thrown m)"
  by (simp add: decoded_def)

lemma ok_eq [simp]: "ok x = (t, Inr y) \<longleftrightarrow> t = [] \<and> x = y"
  by (auto simp: ok_def)

lemma lookupFile_io_eq [simp]:
  "lookupFile_io rs p = (t, Inr b) \<longleftrightarrow> t = [Lookup p] \<and> b = lookupFile rs p"
  by (auto simp: lookupFile_io_def)

lemma console_log_eq [simp]: "console_log x = (t, Inr u) \<longleftrightarrow> t = [ConsoleLog x]"
  by (auto simp: console_log_def)

lemma assert_eq [simp]: "assert a b = (t, Inr u) \<longleftrightarrow> t = [] \<and> b"
  by (auto simp: assert_def ok_def throw_def)

lemma for_io_append:
  "for_io (xs @ ys) body s = bind_io (for_io xs body s) (for_io ys body)"
proof (induction xs arbitrary: s)
  case Nil
  then show ?case by simp
next
  case (Cons i xs)
  have "for_io (xs @ ys) body = (\<lambda>s'. bind_io (for_io xs body s') (for_io ys body))"
    by (rule ext) (rule Cons)
  then show ?case by (simp add: bind_io_assoc)
qed

subsection \<open>Rounding to binary64\<close>




lemma round_half_even_of_int [simp]: "round_half_even (of_int k) = k"
  by (simp add: round_half_even_def)



lemma ulp_pos [simp]: "0 < ulp x"
  by (simp add: ulp_def)



lemma round_half_even_numeral [simp]: "round_half_even (numeral k) = numeral k"
  using round_half_even_of_int [of "numeral k"] by simp

lemma ulp_nonneg [simp]: "0 \<le> ulp x"
  by (simp add: ulp_def)









lemma ulp_neq_0 [simp]: "ulp x \<noteq> 0"
  by (simp add: ulp_def)


lemma round_half_even_nearest: "\<bar>of_int (round_half_even q) - q\<bar> \<le> 1 / 2"
proof -
  have "of_int \<lfloor>q\<rfloor> \<le> q" "q < of_int \<lfloor>q\<rfloor> + 1" by linarith+
  then show ?thesis by (auto simp add: round_half_even_def Let_def abs_le_iff)
qed

lemma round_binary64_nearest: "\<bar>round_binary64 x - x\<bar> \<le> ulp x / 2"
proof (cases "x = 0")
  case True
  then show ?thesis by (simp add: round_binary64_def)
next
  case False
  have "\<bar>of_int (round_half_even (x / ulp x)) - x / ulp x\<bar> * ulp x \<le> 1 / 2 * ulp x"
    by (intro mult_right_mono round_half_even_nearest) simp
  moreover have "\<bar>of_int (round_half_even (x / ulp x)) - x / ulp x\<bar> * ulp x
      = \<bar>of_int (round_half_even (x / ulp x)) * ulp x - x\<bar>"
  proof -
    have "\<bar>of_int (round_half_even (x / ulp x)) - x / ulp x\<bar> * ulp x
        = \<bar>(of_int (round_half_even (x / ulp x)) - x / ulp x) * ulp x\<bar>"
      by (simp add: abs_mult)
    also have "(of_int (round_half_even (x / ulp x)) - x / ulp x) * ulp x
        = of_int (round_half_even (x / ulp x)) * ulp x - x"
      by (simp add: left_diff_distrib)
    finally show ?thesis .
  qed
  ultimately show ?thesis using False by (simp add: round_binary64_def)
qed


lemmas binary64_defs = to_number_def round_binary64_def ulp_def floor_log2_def compute_bitlen
  round_half_even_def Let_def

text \<open>The doubles that the literals \<^verbatim>\<open>0.1\<close>, \<^verbatim>\<open>0.2\<close> and \<^verbatim>\<open>0.3\<close> denote.\<close>

lemma decimal_literals:
  "to_number (1 / 10) = Num (3602879701896397 / 2 ^ 55)
   \<and> to_number (2 / 10) = Num (3602879701896397 / 2 ^ 54)
   \<and> to_number (3 / 10) = Num (5404319552844595 / 2 ^ 54)"
  by (simp add: binary64_defs)

subsection \<open>DataFetcher: the reported aggregate\<close>

lemma fold_index_js_sum:
  "fold (\<lambda>i n. js_add n (Num (ps ! i))) [0..<length ps] a = foldl js_add a (map Num ps)"
proof (induction ps arbitrary: a rule: rev_induct)
  case Nil
  then show ?case by simp
next
  case (snoc x xs)
  have "fold (\<lambda>i n. js_add n (Num ((xs @ [x]) ! i))) [0..<length xs] a
        = fold (\<lambda>i n. js_add n (Num (xs ! i))) [0..<length xs] a"
    by (rule fold_cong) (auto simp: nth_append)
  then show ?case using snoc by (simp add: nth_append)
qed

lemma calcProgress_js_sum:
  "calcProgress df = js_divide (js_sum (fileProgressables df)) (length (fileProgressables df))"
  by (simp add: calcProgress_def fold_index_js_sum js_sum_def)

lemma js_sum_snoc: "js_sum (ps @ [p]) = js_add (js_sum ps) (Num p)"
  by (simp add: js_sum_def)

lemma to_number_not_NaN [simp]: "to_number x \<noteq> NaN"
  by (simp add: to_number_def Let_def)

lemma js_add_Num_not_NaN: "x \<noteq> NaN \<Longrightarrow> js_add x (Num p) \<noteq> NaN"
  by (cases x) simp_all

lemma js_sum_not_NaN [simp]: "js_sum ps \<noteq> NaN"
  by (induction ps rule: rev_induct) (simp_all add: js_sum_snoc js_add_Num_not_NaN, simp add: js_sum_def)

lemma js_divide_not_NaN: "x \<noteq> NaN \<Longrightarrow> 0 < n \<Longrightarrow> js_divide x n \<noteq> NaN"
  by (cases x) simp_all

lemma calcProgress_not_NaN: "fileProgressables df \<noteq> [] \<Longrightarrow> calcProgress df \<noteq> NaN"
  by (simp add: calcProgress_js_sum js_divide_not_NaN)

lemma calcProgress_progressMeter_update [simp]:
  "calcProgress (df\<lparr>progressMeter := m\<rparr>) = calcProgress df"
  by (simp add: calcProgress_def)

lemma fetcher_run_snoc: "fetcher_run (evs @ [e]) = fetcher_step (fetcher_run evs) e"
  by (simp add: fetcher_run_def)

lemma fetcher_invariant:
  "(progressMeter (fetcher_run evs) = [] \<or> fileProgressables (fetcher_run evs) \<noteq> [])
   \<and> (progressMeter (fetcher_run evs) = [] \<or>
       last (progressMeter (fetcher_run evs)) = calcProgress (fetcher_run evs))
   \<and> NaN \<notin> set (progressMeter (fetcher_run evs))"
proof (induction evs rule: rev_induct)
  case Nil
  then show ?case by (simp add: fetcher_run_def new_DataFetcher_def)
next
  case (snoc e evs)
  show ?case
  proof (cases e)
    case (FetchData p)
    have "calcProgress (fetcher_run evs\<lparr>fileProgressables := fileProgressables (fetcher_run evs) @ [p]\<rparr>) \<noteq> NaN"
      by (rule calcProgress_not_NaN) simp
    then show ?thesis using snoc FetchData
      by (auto simp add: fetcher_run_snoc fetchData_def setProgress_def)
  next
    case (OnProgress i v)
    have "i < length (fileProgressables (fetcher_run evs)) \<Longrightarrow>
      calcProgress (fetcher_run evs\<lparr>fileProgressables := (fileProgressables (fetcher_run evs))[i := v]\<rparr>) \<noteq> NaN"
      by (rule calcProgress_not_NaN) auto
    then show ?thesis using snoc OnProgress
      by (auto simp add: fetcher_run_snoc onProgress_def setProgress_def)
  qed
qed




lemma calcProgress_fetchData [simp]:
  "calcProgress (fetchData df p)
     = js_divide (js_add (js_sum (fileProgressables df)) (Num p)) (Suc (length (fileProgressables df)))"
  by (simp add: fetchData_def setProgress_def calcProgress_js_sum js_sum_snoc)









text \<open>
  Claim C10. \<^verbatim>\<open>calcProgress\<close> divides the sum of the fractions by the length of the task
  list, and every report happens with at least one task registered: \<^verbatim>\<open>fetchData\<close> pushes
  the new task before it reports, and a callback belongs to a pushed task. So the sink
  never sees the \<^verbatim>\<open>NaN\<close> of the empty list: after any sequence of steps no reported value is
  \<^verbatim>\<open>NaN\<close>, a report implies a registered task, and what \<^verbatim>\<open>fetchData\<close> reports is the sum
  over the list with the new task divided by its length, which is not \<^verbatim>\<open>NaN\<close>. The quotient
  \<^verbatim>\<open>0 / 0\<close> is what \<^verbatim>\<open>calcProgress\<close> would give on the constructor's state, which is never
  reported.
\<close>

theorem setProgress_never_divides_by_zero:
  "NaN \<notin> set (progressMeter (fetcher_run evs))
   \<and> (progressMeter (fetcher_run evs) = [] \<or> fileProgressables (fetcher_run evs) \<noteq> [])
   \<and> fileProgressables (fetchData df p) \<noteq> []
   \<and> progressMeter (fetchData df p)
       = progressMeter df @ [js_divide (js_sum (fileProgressables df @ [p]))
                                       (length (fileProgressables df @ [p]))]
   \<and> js_divide (js_sum (fileProgressables df @ [p])) (length (fileProgressables df @ [p])) \<noteq> NaN
   \<and> calcProgress new_DataFetcher = NaN"
  using fetcher_invariant [of evs]
  by (simp add: fetchData_def setProgress_def calcProgress_js_sum new_DataFetcher_def
        js_divide_not_NaN, simp add: js_sum_def)

subsection \<open>ResourceSystem: the last mount of a path wins\<close>

lemma lookupFile_mountFile:
  "lookupFile (mountFile rs p b) q = (if q = p then Some b else lookupFile rs q)"
  by (simp add: lookupFile_def mountFile_def)

text \<open>
  Claim C6. For every path \<open>p\<close> and buffers \<open>b1\<close>, \<open>b2\<close>, on every namespace:
  after \<open>mountFile p b1\<close> and then \<open>mountFile p b2\<close>, looking \<open>p\<close> up gives \<open>b2\<close>.
  Nothing of the first mount is left: the namespace is the one that the second mount
  alone would have produced, and every other path is as it was.
\<close>

theorem mountFile_last_write_wins:
  "lookupFile (mountFile (mountFile rs p b1) p b2) p = Some b2
   \<and> mountFile (mountFile rs p b1) p b2 = mountFile rs p b2
   \<and> lookupFile (mountFile (mountFile rs p b1) p b2) q
       = (if q = p then Some b2 else lookupFile rs q)"
  by (simp add: lookupFile_def mountFile_def)

lemma mountCRG1_fold:
  "files (fold (\<lambda>filename rs'.
             case m filename of
               Some b \<Rightarrow> rs'\<lparr>files := (files rs')(filename \<mapsto> b)\<rparr>
             | None \<Rightarrow> rs') ks rs) k
   = (if k \<in> set ks then (case m k of Some b \<Rightarrow> Some b | None \<Rightarrow> files rs k) else files rs k)"
proof (induction ks arbitrary: rs)
  case Nil
  then show ?case by simp
next
  case (Cons a ks)
  then show ?case by (cases "m a") (auto split: option.splits)
qed

text \<open>
  Mounting an archive: afterwards every file name of the manifest is mapped to the
  manifest's buffer for it, and every other path is as it was. The order in which the
  names are enumerated plays no part.
\<close>

theorem mountCRG1_lookup:
  "lookupFile (mountCRG1 rs n) filename
     = (case map_of (Files n) filename of
          Some b \<Rightarrow> Some b
        | None \<Rightarrow> lookupFile rs filename)"
proof -
  have "filename \<notin> fst ` set (Files n) \<Longrightarrow> map_of (Files n) filename = None"
    by (simp add: map_of_eq_None_iff)
  then show ?thesis
    using mountCRG1_fold [of "map_of (Files n)" "map fst (Files n)" rs filename]
    by (auto simp: lookupFile_def mountCRG1_def split: option.splits)
qed

subsection \<open>The loose texture container\<close>

text \<open>
  Claim C9. \<^verbatim>\<open>loadTextureTPFDCX\<close> registers every texture of the decoded container and
  checks nothing: whenever the codec and the texture decoder return, the result is the
  holder with all the container's textures appended, however many they are and whatever
  their names. No assertion can fail in it, and it rejects nothing: the only exception
  it can end in is one a decoder threw.
\<close>

theorem loadTextureTPFDCX_unconditional:
  "(DCX_decompressBuffer c (lookupFile rs (baseName @ ''.tpf.dcx'')) = Inr d
      \<and> TPF_parse c d = Inr tpf
    \<longrightarrow> loadTextureTPFDCX c th rs baseName
          = ([Lookup (baseName @ ''.tpf.dcx'')], Inr (addTextures th (textures tpf)))
        \<and> addTextures th (textures tpf) = th @ textures tpf)
   \<and> snd (loadTextureTPFDCX c th rs baseName) \<noteq> Inl (AssertFail a)
   \<and> snd (loadTextureTPFDCX c th rs baseName) \<noteq> Inl (Rejected reason)"
proof -
  have "snd (loadTextureTPFDCX c th rs baseName) \<noteq> Inl (AssertFail a)
        \<and> snd (loadTextureTPFDCX c th rs baseName) \<noteq> Inl (Rejected reason)"
    by (cases "DCX_decompressBuffer c (lookupFile rs (baseName @ ''.tpf.dcx''))";
        cases "TPF_parse c (projr (DCX_decompressBuffer c (lookupFile rs (baseName @ ''.tpf.dcx''))))")
       (simp_all add: loadTextureTPFDCX_def lookupFile_io_def ok_def throw_def)
  then show ?thesis
    by (simp add: loadTextureTPFDCX_def lookupFile_io_def ok_def addTextures_def)
qed

theorem loadTextureTPFDCX_unconditional_witness:
  "DCX_decompressBuffer sample_two_textures
       (lookupFile sample_loose_namespace (''/map/m10/m10_9999'' @ ''.tpf.dcx'')) = Inr ''z''
   \<and> TPF_parse sample_two_textures ''z''
       = Inr \<lparr>textures = [\<lparr>Texture.name = ''first'', image = ''z''\<rparr>,
                           \<lparr>Texture.name = ''second'', image = ''z''\<rparr>]\<rparr>
   \<and> loadTextureTPFDCX sample_two_textures [] sample_loose_namespace ''/map/m10/m10_9999''
       = ([Lookup ''/map/m10/m10_9999.tpf.dcx''],
          Inr [\<lparr>Texture.name = ''first'', image = ''z''\<rparr>,
               \<lparr>Texture.name = ''second'', image = ''z''\<rparr>])"
  using loadTextureTPFDCX_unconditional
          [of sample_two_textures sample_loose_namespace "''/map/m10/m10_9999''" "''z''"
              "\<lparr>textures = [\<lparr>Texture.name = ''first'', image = ''z''\<rparr>,
                             \<lparr>Texture.name = ''second'', image = ''z''\<rparr>]\<rparr>" "[]"]
  by (simp add: sample_two_textures_def sample_def sample_loose_namespace_def
       new_ResourceSystem_def mountFile_def lookupFile_def)

subsection \<open>Phase 1\<close>

lemma phase1_issued:
  "fst (await_Promise_all o1 (fetchCRG1Arc c a) (fetchLoose c f) rs)
     = [Fetch (''dks/'' @ a), Fetch (''dks/'' @ f)]"
  by (simp add: await_Promise_all_def fetchCRG1Arc_def fetchLoose_def pathBase_def)

lemma createScene_starts:
  "\<exists>t. fst (createScene c this_id)
        = [Fetch (''dks/'' @ this_id @ ''_arc.crg1''), Fetch ''dks/mtd/Mtd.mtdbnd''] @ t"
proof (cases "await_Promise_all (arc_settles_first c) (fetchCRG1Arc c (this_id @ ''_arc.crg1''))
                 (fetchLoose c ''mtd/Mtd.mtdbnd'') new_ResourceSystem")
  case (Pair t r)
  with phase1_issued [of "arc_settles_first c" c "this_id @ ''_arc.crg1''" "''mtd/Mtd.mtdbnd''"
                         new_ResourceSystem]
  have t: "t = [Fetch (''dks/'' @ this_id @ ''_arc.crg1''), Fetch ''dks/mtd/Mtd.mtdbnd'']"
    by simp
  show ?thesis using Pair t by (cases r) (simp_all add: createScene_def Let_def)
qed

text \<open>
  Claim C7. In phase 1 the bulk archive and the material-definition file are fetched in
  parallel and awaited jointly; if either fetch fails, the whole load is rejected and no
  scene is returned.

  If either download fails, \<^verbatim>\<open>createScene\<close> ends in an exception: its result is no
  renderer, and it has done nothing but issue the two downloads (no lookup, no decoding
  of a scene). And on every load, whatever the outcomes, the first two things that
  happen are the two downloads being issued, the archive's and then the loose file's:
  the second is issued without waiting for the first. (The model has no clock; that
  the two transfers overlap in time is the fetch layer's doing.)
\<close>

theorem createScene_rejects_when_a_fetch_fails:
  "((\<exists>reason. fetch c (''dks/'' @ this_id @ ''_arc.crg1'') = Inl reason)
     \<or> (\<exists>reason. fetch c ''dks/mtd/Mtd.mtdbnd'' = Inl reason)
    \<longrightarrow> (\<exists>e. createScene c this_id
              = ([Fetch (''dks/'' @ this_id @ ''_arc.crg1''), Fetch ''dks/mtd/Mtd.mtdbnd''], Inl e)))
   \<and> (\<exists>t. fst (createScene c this_id)
          = [Fetch (''dks/'' @ this_id @ ''_arc.crg1''), Fetch ''dks/mtd/Mtd.mtdbnd''] @ t)"
proof (intro conjI impI)
  assume f: "(\<exists>reason. fetch c (''dks/'' @ this_id @ ''_arc.crg1'') = Inl reason)
     \<or> (\<exists>reason. fetch c ''dks/mtd/Mtd.mtdbnd'' = Inl reason)"
  then have "\<exists>e. snd (await_Promise_all (arc_settles_first c)
                        (fetchCRG1Arc c (this_id @ ''_arc.crg1''))
                        (fetchLoose c ''mtd/Mtd.mtdbnd'') new_ResourceSystem) = Inl e"
    by (auto simp: await_Promise_all_def fetchCRG1Arc_def fetchLoose_def pathBase_def
             split: sum.splits)
  then obtain e where
    "await_Promise_all (arc_settles_first c) (fetchCRG1Arc c (this_id @ ''_arc.crg1''))
        (fetchLoose c ''mtd/Mtd.mtdbnd'') new_ResourceSystem
       = ([Fetch (''dks/'' @ this_id @ ''_arc.crg1''), Fetch ''dks/mtd/Mtd.mtdbnd''], Inl e)"
    using phase1_issued [of "arc_settles_first c" c "this_id @ ''_arc.crg1''" "''mtd/Mtd.mtdbnd''"
                            new_ResourceSystem]
    by (auto simp: prod_eq_iff)
  then show "\<exists>e. createScene c this_id
              = ([Fetch (''dks/'' @ this_id @ ''_arc.crg1''), Fetch ''dks/mtd/Mtd.mtdbnd''], Inl e)"
    by (simp add: createScene_def Let_def)
next
  show "\<exists>t. fst (createScene c this_id)
          = [Fetch (''dks/'' @ this_id @ ''_arc.crg1''), Fetch ''dks/mtd/Mtd.mtdbnd''] @ t"
    by (rule createScene_starts)
qed

theorem createScene_rejects_when_a_fetch_fails_witness:
  "fetch sample_offline ''dks/mtd/Mtd.mtdbnd'' = Inl ''offline''
   \<and> fetch sample_offline (''dks/'' @ ''m10_01_00_00'' @ ''_arc.crg1'') = Inr ''arc''
   \<and> createScene sample_offline ''m10_01_00_00''
       = ([Fetch ''dks/m10_01_00_00_arc.crg1'', Fetch ''dks/mtd/Mtd.mtdbnd''],
          Inl (Rejected ''offline''))"
  using createScene_rejects_when_a_fetch_fails [of sample_offline "''m10_01_00_00''"]
  by (simp add: sample_offline_def sample_def createScene_def await_Promise_all_def
       fetchCRG1Arc_def fetchLoose_def pathBase_def)

subsection \<open>Teardown\<close>

lemma fold_snoc_map:
  "fold (\<lambda>i out. out @ [f (xs ! i)]) [0..<length xs] acc = acc @ map f xs"
proof (induction xs arbitrary: acc rule: rev_induct)
  case Nil
  then show ?case by simp
next
  case (snoc x xs)
  have "fold (\<lambda>i out. out @ [f ((xs @ [x]) ! i)]) [0..<length xs] acc
        = fold (\<lambda>i out. out @ [f (xs ! i)]) [0..<length xs] acc"
    by (rule fold_cong) (auto simp: nth_append)
  then show ?case using snoc by (simp add: nth_append)
qed

lemma fold_present:
  "fold (\<lambda>i out. case js_get xs i of Some d \<Rightarrow> out @ [f d] | None \<Rightarrow> out) [0..<length xs] acc
     = acc @ map f (List.map_filter id xs)"
proof (induction xs arbitrary: acc rule: rev_induct)
  case Nil
  then show ?case by (simp add: List.map_filter_simps)
next
  case (snoc x xs)
  have "fold (\<lambda>i out. case js_get (xs @ [x]) i of Some d \<Rightarrow> out @ [f d] | None \<Rightarrow> out)
             [0..<length xs] acc
        = fold (\<lambda>i out. case js_get xs i of Some d \<Rightarrow> out @ [f d] | None \<Rightarrow> out)
             [0..<length xs] acc"
    by (rule fold_cong) (auto simp: nth_append js_get_def)
  then show ?case using snoc
    by (cases x) (simp_all add: js_get_def nth_append List.map_filter_def)
qed

lemma sceneRenderers_registration_order:
  "sceneRenderers (foldl addSceneRenderer r srs) = sceneRenderers r @ srs"
  by (induction srs arbitrary: r) (simp_all add: addSceneRenderer_def)

text \<open>
  Claim C8, as amended. \<^verbatim>\<open>destroy()\<close> on the scene aggregate makes its calls in exactly
  this order: first the base class's own \<^verbatim>\<open>super.destroy(device)\<close>, then every registered
  sub-scene renderer in registration order, then the texture holder, then the model
  holder, which destroys each present model in index order. The renderers registered by
  \<^verbatim>\<open>addSceneRenderer\<close> are kept in the order of the calls, and the holders are the
  constructor's.
\<close>

theorem DKSRenderer_destroy_order:
  "DKSRenderer_destroy r
     = BasicRendererHelper_destroy
       # map MSBRenderer_destroy (sceneRenderers r)
       @ [DDSTextureHolder_destroy (textureHolder r)]
       @ ModelHolder_destroy (modelHolder r)
   \<and> ModelHolder_destroy mh = map FLVERData_destroy (List.map_filter id (flverData mh))
   \<and> sceneRenderers (foldl addSceneRenderer (new_DKSRenderer th mh) srs) = srs
   \<and> textureHolder (foldl addSceneRenderer (new_DKSRenderer th mh) srs) = th
   \<and> modelHolder (foldl addSceneRenderer (new_DKSRenderer th mh) srs) = mh"
proof -
  have "textureHolder (foldl addSceneRenderer r0 srs) = textureHolder r0
        \<and> modelHolder (foldl addSceneRenderer r0 srs) = modelHolder r0" for r0
    by (induction srs arbitrary: r0) (simp_all add: addSceneRenderer_def)
  then show ?thesis
    using fold_snoc_map [where f = MSBRenderer_destroy and xs = "sceneRenderers r" and acc = "[]"]
          fold_present [where xs = "flverData mh" and f = FLVERData_destroy and acc = "[]"]
    by (simp add: DKSRenderer_destroy_def ModelHolder_destroy_def
          sceneRenderers_registration_order new_DKSRenderer_def)
qed

text \<open>
  The claim as it was written has the sub-scene renderers released first. On a renderer
  with one sub-scene, one texture and one model, the first call is the base class's, and
  the sub-scene renderer comes second.
\<close>

theorem DKSRenderer_destroy_base_class_first:
  "DKSRenderer_destroy sample_renderer
     = [BasicRendererHelper_destroy,
        MSBRenderer_destroy (MSBRenderer [\<lparr>Texture.name = ''x'', image = ''x''\<rparr>]
                    (new_ModelHolder [Some \<lparr>batches = [1]\<rparr>]) sample_msb),
        DDSTextureHolder_destroy [\<lparr>Texture.name = ''x'', image = ''x''\<rparr>],
        FLVERData_destroy (FLVERData \<lparr>batches = [1]\<rparr>)]
   \<and> hd (DKSRenderer_destroy sample_renderer)
       \<noteq> MSBRenderer_destroy (hd (sceneRenderers sample_renderer))"
  by (simp add: sample_renderer_def DKSRenderer_destroy_def ModelHolder_destroy_def
        addSceneRenderer_def new_DKSRenderer_def new_ModelHolder_def js_get_def js_set_def)

subsection \<open>The split texture banks\<close>

text \<open>
  Claim C2 says that the name compared with the embedded texture name is the declared
  name with the \<^verbatim>\<open>.tpf.dcx\<close> suffix stripped. The code asserts that the name ends with
  the suffix and then calls \<^verbatim>\<open>replace('.tpf.dcx', '')\<close>, which removes the first occurrence.
  On the declared name \<^verbatim>\<open>a.tpf.dcxb.tpf.dcx\<close> the two differ: the suffix-stripped key is
  \<^verbatim>\<open>a.tpf.dcxb\<close>, the code's key is \<^verbatim>\<open>ab.tpf.dcx\<close>. A record whose texture is named
  \<^verbatim>\<open>a.tpf.dcxb\<close> fails the third assertion, and one whose texture is named
  \<^verbatim>\<open>ab.tpf.dcx\<close> passes it and is registered.
\<close>

theorem loadTextureBHD_record_removes_first_occurrence:
  "endsWith ''a.tpf.dcxb.tpf.dcx'' ''.tpf.dcx''
   \<and> spec_declared_key ''a.tpf.dcxb.tpf.dcx'' = ''a.tpf.dcxb''
   \<and> toLowerCase (replace (replace_backslashes ''a.tpf.dcxb.tpf.dcx'') ''.tpf.dcx'' [])
       = ''ab.tpf.dcx''
   \<and> loadTextureBHD_record sample
         \<lparr>FileRecord.name = ''a.tpf.dcxb.tpf.dcx'', buffer = ''a.tpf.dcxb''\<rparr> []
       = ([], Inl (AssertFail Key1_equals_key2))
   \<and> loadTextureBHD_record sample
         \<lparr>FileRecord.name = ''a.tpf.dcxb.tpf.dcx'', buffer = ''ab.tpf.dcx''\<rparr> []
       = ([], Inr [\<lparr>Texture.name = ''ab.tpf.dcx'', image = ''ab.tpf.dcx''\<rparr>])"
  by (simp add: endsWith_def spec_declared_key_def spec_strip_suffix_def toLowerCase_def
        replace_backslashes_def loadTextureBHD_record_def sample_def assert_def ok_def throw_def
        addTextures_def)

lemma toLowerCase_code_units:
  "toLowerCase [CHR ''Z'', CHR ''z'', CHR ''_'', CHR 0xC4, CHR 0xD7, CHR 0xDE, CHR 0xDF, CHR 0xFF]
     = [CHR ''z'', CHR ''z'', CHR ''_'', CHR 0xE4, CHR 0xD7, CHR 0xFE, CHR 0xDF, CHR 0xFF]"
  by (simp add: toLowerCase_def)

text \<open>
  What \<^verbatim>\<open>loadTextureBHD\<close> does with one record. The record is registered exactly when
  its declared name ends with \<^verbatim>\<open>.tpf.dcx\<close>, the codec and the texture decoder return, the
  container has exactly one texture, and the declared name with its backslashes removed,
  the first \<^verbatim>\<open>.tpf.dcx\<close> removed and lower-cased equals the lower-cased embedded name;
  the one texture is then appended to the holder. Nothing is looked up on the way.
\<close>

theorem loadTextureBHD_record_registers_iff:
  "loadTextureBHD_record c r th = (t, Inr th') \<longleftrightarrow>
     t = [] \<and> endsWith (FileRecord.name r) ''.tpf.dcx''
     \<and> (\<exists>d tpf. DCX_decompressBuffer c (Some (buffer r)) = Inr d
           \<and> TPF_parse c d = Inr tpf
           \<and> length (textures tpf) = 1
           \<and> toLowerCase (replace (replace_backslashes (FileRecord.name r)) ''.tpf.dcx'' [])
               = toLowerCase (Texture.name (textures tpf ! 0))
           \<and> th' = addTextures th (textures tpf))"
proof
  assume "loadTextureBHD_record c r th = (t, Inr th')"
  then show "t = [] \<and> endsWith (FileRecord.name r) ''.tpf.dcx''
     \<and> (\<exists>d tpf. DCX_decompressBuffer c (Some (buffer r)) = Inr d
           \<and> TPF_parse c d = Inr tpf
           \<and> length (textures tpf) = 1
           \<and> toLowerCase (replace (replace_backslashes (FileRecord.name r)) ''.tpf.dcx'' [])
               = toLowerCase (Texture.name (textures tpf ! 0))
           \<and> th' = addTextures th (textures tpf))"
    unfolding loadTextureBHD_record_def Let_def
    by (elim bind_io_InrE) auto
next
  assume "t = [] \<and> endsWith (FileRecord.name r) ''.tpf.dcx''
     \<and> (\<exists>d tpf. DCX_decompressBuffer c (Some (buffer r)) = Inr d
           \<and> TPF_parse c d = Inr tpf
           \<and> length (textures tpf) = 1
           \<and> toLowerCase (replace (replace_backslashes (FileRecord.name r)) ''.tpf.dcx'' [])
               = toLowerCase (Texture.name (textures tpf ! 0))
           \<and> th' = addTextures th (textures tpf))"
  then show "loadTextureBHD_record c r th = (t, Inr th')"
    by (auto simp: loadTextureBHD_record_def Let_def assert_def ok_def)
qed

theorem loadTextureBHD_record_registers_iff_witness:
  "loadTextureBHD_record sample \<lparr>FileRecord.name = ''X.tpf.dcx'', buffer = ''x''\<rparr> []
     = ([], Inr [\<lparr>Texture.name = ''x'', image = ''x''\<rparr>])
   \<and> loadTextureBHD_record sample \<lparr>FileRecord.name = ''X.tpf.dcx'', buffer = ''y''\<rparr> []
     = ([], Inl (AssertFail Key1_equals_key2))
   \<and> loadTextureBHD_record sample \<lparr>FileRecord.name = ''X.tpf'', buffer = ''x''\<rparr> []
     = ([], Inl (AssertFail Name_endsWith_tpf_dcx))
   \<and> loadTextureBHD_record sample_two_textures \<lparr>FileRecord.name = ''X.tpf.dcx'', buffer = ''x''\<rparr> []
     = ([], Inl (AssertFail Textures_length_is_1))"
  using loadTextureBHD_record_registers_iff [of sample "\<lparr>FileRecord.name = ''X.tpf.dcx'', buffer = ''x''\<rparr>" "[]" "[]"
               "[\<lparr>Texture.name = ''x'', image = ''x''\<rparr>]"]
  by (simp add: endsWith_def toLowerCase_def replace_backslashes_def loadTextureBHD_record_def
        sample_def sample_two_textures_def assert_def ok_def throw_def addTextures_def)

subsection \<open>The loops of the assembly\<close>

lemma bind_io_ok_right [simp]: "bind_io m ok = m"
proof (cases m)
  case (Pair t r)
  then show ?thesis by (cases r) (simp_all add: ok_def)
qed

lemma for_io_single: "for_io [i] body s = body i s"
proof -
  have "for_io [] body = ok" by (rule ext) simp
  then show ?thesis by simp
qed

lemma js_get_js_set: "js_get (js_set xs i v) j = (if j = i then Some v else js_get xs j)"
  by (auto simp: js_get_def js_set_def nth_append)

lemma js_get_Nil [simp]: "js_get [] i = None"
  by (simp add: js_get_def)

lemma lookups_append [simp]: "lookups (a @ b) = lookups a @ lookups b"
  by (induction a rule: lookups.induct) simp_all

lemma createScene_model_Inr:
  assumes "createScene_model c rs msb i flver = (t, Inr flver')"
  shows "(type (models msb ! i) \<noteq> 0 \<and> t = [] \<and> flver' = flver)
       \<or> (type (models msb ! i) = 0 \<and> t = [Lookup (flverPath (models msb ! i))]
          \<and> (\<exists>d g. DCX_decompressBuffer c (lookupFile rs (flverPath (models msb ! i))) = Inr d
                  \<and> FLVER_parse c d = Inr g
                  \<and> flver' = (if 0 < length (batches g) then js_set flver i g else flver)))"
proof (cases "type (models msb ! i) = 0")
  case False
  with assms show ?thesis by (simp add: createScene_model_def)
next
  case True
  with assms have
    "bind_io (lookupFile_io rs (flverPath (models msb ! i))) (\<lambda>flverBuffer.
        bind_io (decoded (DCX_decompressBuffer c flverBuffer)) (\<lambda>decompressed.
        bind_io (decoded (FLVER_parse c decompressed)) (\<lambda>flver'.
        if length (batches flver') > 0 then ok (js_set flver i flver') else ok flver)))
     = (t, Inr flver')"
    by (simp add: createScene_model_def)
  then show ?thesis using True
    by (elim bind_io_InrE) (auto split: if_splits)
qed

lemma createScene_models_loop:
  assumes "n \<le> length (models msb)"
      and "for_io [0..<n] (createScene_model c rs msb) [] = (t, Inr flver)"
  shows "lookups t = map flverPath (filter (\<lambda>m. type m = 0) (take n (models msb)))
       \<and> (\<forall>i g. js_get flver i = Some g \<longleftrightarrow>
             i < n \<and> type (models msb ! i) = 0
             \<and> (\<exists>d. DCX_decompressBuffer c (lookupFile rs (flverPath (models msb ! i))) = Inr d
                    \<and> FLVER_parse c d = Inr g)
             \<and> 0 < length (batches g))"
  using assms
proof (induction n arbitrary: t flver)
  case 0
  then show ?case by simp
next
  case (Suc n)
  from Suc.prems(2) have
    "bind_io (for_io [0..<n] (createScene_model c rs msb) [])
             (for_io [n] (createScene_model c rs msb)) = (t, Inr flver)"
    by (simp add: for_io_append)
  then obtain t1 f1 t2 where
    a: "for_io [0..<n] (createScene_model c rs msb) [] = (t1, Inr f1)" and
    b: "for_io [n] (createScene_model c rs msb) f1 = (t2, Inr flver)" and
    t: "t = t1 @ t2"
    by (elim bind_io_InrE)
  from Suc.prems(1) have n: "n < length (models msb)" by simp
  then have n': "n \<le> length (models msb)" by simp
  note ih = Suc.IH [OF n' a]
  from b have b': "createScene_model c rs msb n f1 = (t2, Inr flver)"
    by (simp only: for_io_single)
  note body = createScene_model_Inr [OF b']
  have tk: "take (Suc n) (models msb) = take n (models msb) @ [models msb ! n]"
    using n by (simp add: take_Suc_conv_app_nth)
  show ?case
  proof (intro conjI allI)
    show "lookups t = map flverPath (filter (\<lambda>m. type m = 0) (take (Suc n) (models msb)))"
      using ih body t tk by auto
  next
    fix i g
    show "js_get flver i = Some g \<longleftrightarrow>
             i < Suc n \<and> type (models msb ! i) = 0
             \<and> (\<exists>d. DCX_decompressBuffer c (lookupFile rs (flverPath (models msb ! i))) = Inr d
                    \<and> FLVER_parse c d = Inr g)
             \<and> 0 < length (batches g)"
    proof (cases "i = n")
      case True
      have none: "js_get f1 n = None"
        using ih by (cases "js_get f1 n") auto
      then have neq: "js_set f1 n v \<noteq> f1" for v
        by (metis js_get_js_set option.distinct(1))
      show ?thesis using True body none neq
        by (auto simp: js_get_js_set split: if_splits)
    next
      case False
      then have "js_get flver i = js_get f1 i"
        using body by (auto simp: js_get_js_set split: if_splits)
      then show ?thesis using False ih by (auto simp: less_Suc_eq)
    qed
  qed
qed

lemma new_ModelHolder_loop:
  "n \<le> length flver \<Longrightarrow>
   js_get (fold (\<lambda>i fd. case js_get flver i of
                        Some f \<Rightarrow> js_set fd i (FLVERData f)
                      | None \<Rightarrow> fd) [0..<n] []) i
     = (if i < n then map_option FLVERData (js_get flver i) else None)"
proof (induction n)
  case 0
  then show ?case by simp
next
  case (Suc n)
  then show ?case
    by (cases "js_get flver n") (auto simp: js_get_js_set less_Suc_eq)
qed

lemma new_ModelHolder_slots:
  "js_get (flverData (new_ModelHolder flver)) i = map_option FLVERData (js_get flver i)"
  using new_ModelHolder_loop [of "length flver" flver i]
  by (auto simp: new_ModelHolder_def js_get_def)

lemma loadTextureBHD_record_no_events: "fst (loadTextureBHD_record c r th) = []"
  by (simp add: loadTextureBHD_record_def assert_def decoded_def ok_def throw_def Let_def
           split: sum.splits)

lemma for_io_no_events:
  assumes "\<And>i s. fst (body i s) = []"
  shows "fst (for_io js body s) = []"
proof (induction js arbitrary: s)
  case Nil
  then show ?case by (simp add: ok_def)
next
  case (Cons j js)
  obtain r where b: "body j s = ([], r)" using assms [of j s] by (cases "body j s") simp
  show ?case using b Cons by (cases r) simp_all
qed

lemma loadTextureBHD_Inr:
  assumes "loadTextureBHD c th rs b = (t, Inr th')"
  shows "t = [Lookup (b @ ''.tpfbhd''), Lookup (b @ ''.tpfbdt'')]"
proof -
  have "fst (for_io js (\<lambda>i th'. loadTextureBHD_record c (rsx ! i) th') s) = []" for js rsx s
    by (rule for_io_no_events) (rule loadTextureBHD_record_no_events)
  then have e: "for_io js (\<lambda>i th'. loadTextureBHD_record c (rsx ! i) th') s = (t', r) \<Longrightarrow> t' = []"
    for js rsx s t' r
    by (metis fst_conv)
  from assms show ?thesis
    unfolding loadTextureBHD_def
    by (elim bind_io_InrE) (auto dest: e)
qed

lemma loadTextureTPFDCX_Inr:
  assumes "loadTextureTPFDCX c th rs b = (t, Inr th')"
  shows "t = [Lookup (b @ ''.tpf.dcx'')]"
  using assms unfolding loadTextureTPFDCX_def
  by (elim bind_io_InrE) auto

subsection \<open>A completed load, step by step\<close>

lemma phase1_Inr_iff:
  "await_Promise_all o1 (fetchCRG1Arc c a) (fetchLoose c f) rs0 = (t, Inr rs)
   \<longleftrightarrow> t = [Fetch (''dks/'' @ a), Fetch (''dks/'' @ f)]
       \<and> snd (await_Promise_all o1 (fetchCRG1Arc c a) (fetchLoose c f) rs0) = Inr rs"
  using phase1_issued [of o1 c a f rs0] by (auto simp: prod_eq_iff)

lemma loadTextureBHD_Inr_iff:
  "loadTextureBHD c th rs b = (t, Inr th')
   \<longleftrightarrow> t = [Lookup (b @ ''.tpfbhd''), Lookup (b @ ''.tpfbdt'')]
       \<and> snd (loadTextureBHD c th rs b) = Inr th'"
proof
  assume a: "loadTextureBHD c th rs b = (t, Inr th')"
  from loadTextureBHD_Inr [OF a] a
  show "t = [Lookup (b @ ''.tpfbhd''), Lookup (b @ ''.tpfbdt'')]
       \<and> snd (loadTextureBHD c th rs b) = Inr th'" by simp
next
  assume a: "t = [Lookup (b @ ''.tpfbhd''), Lookup (b @ ''.tpfbdt'')]
       \<and> snd (loadTextureBHD c th rs b) = Inr th'"
  then have "loadTextureBHD c th rs b = (fst (loadTextureBHD c th rs b), Inr th')"
    by (metis prod.collapse)
  with loadTextureBHD_Inr [OF this] a show "loadTextureBHD c th rs b = (t, Inr th')" by simp
qed

lemma loadTextureTPFDCX_Inr_iff:
  "loadTextureTPFDCX c th rs b = (t, Inr th')
   \<longleftrightarrow> t = [Lookup (b @ ''.tpf.dcx'')] \<and> snd (loadTextureTPFDCX c th rs b) = Inr th'"
proof
  assume a: "loadTextureTPFDCX c th rs b = (t, Inr th')"
  from loadTextureTPFDCX_Inr [OF a] a
  show "t = [Lookup (b @ ''.tpf.dcx'')] \<and> snd (loadTextureTPFDCX c th rs b) = Inr th'" by simp
next
  assume a: "t = [Lookup (b @ ''.tpf.dcx'')] \<and> snd (loadTextureTPFDCX c th rs b) = Inr th'"
  then have "loadTextureTPFDCX c th rs b = (fst (loadTextureTPFDCX c th rs b), Inr th')"
    by (metis prod.collapse)
  with loadTextureTPFDCX_Inr [OF this] a show "loadTextureTPFDCX c th rs b = (t, Inr th')" by simp
qed

lemma createScene_InrE:
  assumes "createScene c this_id = (tr, Inr renderer)"
  obtains rs msb mtdBnd tm flver th0 th1 th2 th3 th4 where
    "await_Promise_all (arc_settles_first c) (fetchCRG1Arc c (this_id @ ''_arc.crg1''))
           (fetchLoose c ''mtd/Mtd.mtdbnd'') new_ResourceSystem
       = ([Fetch (''dks/'' @ this_id @ ''_arc.crg1''), Fetch ''dks/mtd/Mtd.mtdbnd''], Inr rs)"
    "MSB_parse c (lookupFile rs (''/map/MapStudio/'' @ this_id @ ''.msb'')) this_id = Inr msb"
    "BND3_parse c (lookupFile rs ''mtd/Mtd.mtdbnd'') = Inr mtdBnd"
    "createScene_models c rs msb = (tm, Inr flver)"
    "loadTextureBHD c new_DDSTextureHolder rs (spec_bank_path this_id ''_0000'')
       = (map Lookup [spec_bank_path this_id ''_0000.tpfbhd'',
                      spec_bank_path this_id ''_0000.tpfbdt''], Inr th0)"
    "loadTextureBHD c th0 rs (spec_bank_path this_id ''_0001'')
       = (map Lookup [spec_bank_path this_id ''_0001.tpfbhd'',
                      spec_bank_path this_id ''_0001.tpfbdt''], Inr th1)"
    "loadTextureBHD c th1 rs (spec_bank_path this_id ''_0002'')
       = (map Lookup [spec_bank_path this_id ''_0002.tpfbhd'',
                      spec_bank_path this_id ''_0002.tpfbdt''], Inr th2)"
    "loadTextureBHD c th2 rs (spec_bank_path this_id ''_0003'')
       = (map Lookup [spec_bank_path this_id ''_0003.tpfbhd'',
                      spec_bank_path this_id ''_0003.tpfbdt''], Inr th3)"
    "loadTextureTPFDCX c th3 rs (spec_bank_path this_id ''_9999'')
       = (map Lookup [spec_bank_path this_id ''_9999.tpf.dcx''], Inr th4)"
    "renderer = \<lparr>sceneRenderers = [MSBRenderer th4 (new_ModelHolder flver) msb],
                 textureHolder = th4, modelHolder = new_ModelHolder flver\<rparr>"
    "tr = [Fetch (''dks/'' @ this_id @ ''_arc.crg1''), Fetch ''dks/mtd/Mtd.mtdbnd'',
           Lookup (''/map/MapStudio/'' @ this_id @ ''.msb''), Lookup ''mtd/Mtd.mtdbnd'',
           ConsoleLog mtdBnd]
          @ tm
          @ map Lookup
             [spec_bank_path this_id ''_0000.tpfbhd'', spec_bank_path this_id ''_0000.tpfbdt'',
              spec_bank_path this_id ''_0001.tpfbhd'', spec_bank_path this_id ''_0001.tpfbdt'',
              spec_bank_path this_id ''_0002.tpfbhd'', spec_bank_path this_id ''_0002.tpfbdt'',
              spec_bank_path this_id ''_0003.tpfbhd'', spec_bank_path this_id ''_0003.tpfbdt'',
              spec_bank_path this_id ''_9999.tpf.dcx'']"
  using assms unfolding createScene_def Let_def
  by (elim bind_io_InrE)
     (simp add: phase1_Inr_iff loadTextureBHD_Inr_iff loadTextureTPFDCX_Inr_iff
           addSceneRenderer_def new_DKSRenderer_def spec_bank_path_def)

lemma createScene_model_BND3_parse_unused:
  "createScene_model (c\<lparr>BND3_parse := p\<rparr>) rs msb = createScene_model c rs msb"
  by (intro ext) (simp add: createScene_model_def)

lemma loadTextureBHD_record_BND3_parse_unused:
  "loadTextureBHD_record (c\<lparr>BND3_parse := p\<rparr>) = loadTextureBHD_record c"
  by (intro ext) (simp add: loadTextureBHD_record_def)

lemma BND3_parse_unused:
  "fetchCRG1Arc (c\<lparr>BND3_parse := p\<rparr>) a = fetchCRG1Arc c a"
  "fetchLoose (c\<lparr>BND3_parse := p\<rparr>) f = fetchLoose c f"
  "createScene_models (c\<lparr>BND3_parse := p\<rparr>) rs msb = createScene_models c rs msb"
  "loadTextureBHD (c\<lparr>BND3_parse := p\<rparr>) th rs b = loadTextureBHD c th rs b"
  "loadTextureTPFDCX (c\<lparr>BND3_parse := p\<rparr>) th rs b = loadTextureTPFDCX c th rs b"
  by (simp_all add: fetchCRG1Arc_def fetchLoose_def createScene_models_def
        createScene_model_BND3_parse_unused loadTextureBHD_record_BND3_parse_unused
        loadTextureBHD_def loadTextureTPFDCX_def cong: sum.case_cong)

lemma createScene_BND3_parse_replaced:
  assumes "createScene c this_id = (tr, Inr renderer)"
  shows "\<exists>tr'. createScene (c\<lparr>BND3_parse := (\<lambda>b. Inr other)\<rparr>) this_id = (tr', Inr renderer)
              \<and> ConsoleLog other \<in> set tr'"
  using assms
proof (rule createScene_InrE)
  fix rs msb mtdBnd tm flver th0 th1 th2 th3 th4
  assume "await_Promise_all (arc_settles_first c) (fetchCRG1Arc c (this_id @ ''_arc.crg1''))
           (fetchLoose c ''mtd/Mtd.mtdbnd'') new_ResourceSystem
       = ([Fetch (''dks/'' @ this_id @ ''_arc.crg1''), Fetch ''dks/mtd/Mtd.mtdbnd''], Inr rs)"
    "MSB_parse c (lookupFile rs (''/map/MapStudio/'' @ this_id @ ''.msb'')) this_id = Inr msb"
    "createScene_models c rs msb = (tm, Inr flver)"
    "loadTextureBHD c new_DDSTextureHolder rs (spec_bank_path this_id ''_0000'')
       = (map Lookup [spec_bank_path this_id ''_0000.tpfbhd'',
                      spec_bank_path this_id ''_0000.tpfbdt''], Inr th0)"
    "loadTextureBHD c th0 rs (spec_bank_path this_id ''_0001'')
       = (map Lookup [spec_bank_path this_id ''_0001.tpfbhd'',
                      spec_bank_path this_id ''_0001.tpfbdt''], Inr th1)"
    "loadTextureBHD c th1 rs (spec_bank_path this_id ''_0002'')
       = (map Lookup [spec_bank_path this_id ''_0002.tpfbhd'',
                      spec_bank_path this_id ''_0002.tpfbdt''], Inr th2)"
    "loadTextureBHD c th2 rs (spec_bank_path this_id ''_0003'')
       = (map Lookup [spec_bank_path this_id ''_0003.tpfbhd'',
                      spec_bank_path this_id ''_0003.tpfbdt''], Inr th3)"
    "loadTextureTPFDCX c th3 rs (spec_bank_path this_id ''_9999'')
       = (map Lookup [spec_bank_path this_id ''_9999.tpf.dcx''], Inr th4)"
    "renderer = \<lparr>sceneRenderers = [MSBRenderer th4 (new_ModelHolder flver) msb],
                 textureHolder = th4, modelHolder = new_ModelHolder flver\<rparr>"
  then show ?thesis
    by (simp add: createScene_def Let_def BND3_parse_unused lookupFile_io_def console_log_def
          ok_def addSceneRenderer_def new_DKSRenderer_def spec_bank_path_def)
qed

subsection \<open>The concrete scene, run\<close>

lemmas io_defs = ok_def throw_def bind_io_def decoded_def assert_def lookupFile_io_def console_log_def
lemmas scene_defs = createScene_def createScene_models_def createScene_model_def loadTextureBHD_def
  loadTextureBHD_record_def loadTextureTPFDCX_def await_Promise_all_def fetchCRG1Arc_def fetchLoose_def
  pathBase_def new_ResourceSystem_def mountCRG1_def mountFile_def lookupFile_def
  new_DDSTextureHolder_def addTextures_def new_ModelHolder_def new_DKSRenderer_def addSceneRenderer_def
  js_get_def js_set_def endsWith_def replace_backslashes_def toLowerCase_def

lemma sample_createScene:
  "createScene sample ''m10_01_00_00'' = (sample_trace, Inr sample_scene)"
  by (simp add: io_defs scene_defs sample_def sample_msb_def sample_archive_def Let_def
        sample_trace_def sample_scene_def sample_textures_def)

lemma sample_missing_createScene:
  "createScene sample_missing ''m10_01_00_00'' =
   ([Fetch ''dks/m10_01_00_00_arc.crg1'', Fetch ''dks/mtd/Mtd.mtdbnd'',
   Lookup ''/map/MapStudio/m10_01_00_00.msb'', Lookup ''mtd/Mtd.mtdbnd'',
   ConsoleLog [''mtd''], Lookup ''/model/missing.flver.dcx''],
   Inl (Thrown ''TypeError''))"
  by (simp add: io_defs scene_defs sample_missing_def sample_def sample_archive_def Let_def)

lemma sample_phase1:
  "await_Promise_all (arc_settles_first sample) (fetchCRG1Arc sample (''m10_01_00_00'' @ ''_arc.crg1''))
     (fetchLoose sample ''mtd/Mtd.mtdbnd'') new_ResourceSystem
   = ([Fetch ''dks/m10_01_00_00_arc.crg1'', Fetch ''dks/mtd/Mtd.mtdbnd''], Inr sample_namespace)"
  by (simp add: await_Promise_all_def fetchCRG1Arc_def fetchLoose_def pathBase_def sample_def
        sample_namespace_def)

lemma sample_namespace_lookups:
  "lookupFile sample_namespace ''/model/missing.flver.dcx'' = None"
  "lookupFile sample_namespace ''/map/MapStudio/m10_01_00_00.msb'' = Some ''msb''"
  "lookupFile sample_namespace ''mtd/Mtd.mtdbnd'' = Some ''mtd''"
  "lookupFile sample_namespace ''/model/a.flver.dcx'' = Some ''bb''"
  by (simp_all add: sample_namespace_def sample_archive_def mountFile_def mountCRG1_def
        lookupFile_def new_ResourceSystem_def)

subsection \<open>The model slots\<close>

lemma createScene_models_decoded:
  assumes "n \<le> length (models msb)"
      and "for_io [0..<n] (createScene_model c rs msb) [] = (t, Inr flver)"
      and "i < n" and "type (models msb ! i) = 0"
  shows "\<exists>d g. DCX_decompressBuffer c (lookupFile rs (flverPath (models msb ! i))) = Inr d
               \<and> FLVER_parse c d = Inr g"
  using assms
proof (induction n arbitrary: t flver)
  case 0
  then show ?case by simp
next
  case (Suc n)
  from Suc.prems(2) have
    "bind_io (for_io [0..<n] (createScene_model c rs msb) [])
             (for_io [n] (createScene_model c rs msb)) = (t, Inr flver)"
    by (simp add: for_io_append)
  then obtain t1 f1 t2 where
    a: "for_io [0..<n] (createScene_model c rs msb) [] = (t1, Inr f1)" and
    b: "for_io [n] (createScene_model c rs msb) f1 = (t2, Inr flver)"
    by (elim bind_io_InrE)
  from Suc.prems(1) have n': "n \<le> length (models msb)" by simp
  from b have b': "createScene_model c rs msb n f1 = (t2, Inr flver)"
    by (simp only: for_io_single)
  show ?case
  proof (cases "i = n")
    case True
    with createScene_model_Inr [OF b'] Suc.prems(4) show ?thesis by auto
  next
    case False
    with Suc.prems(3) have "i < n" by simp
    from Suc.IH [OF n' a this Suc.prems(4)] show ?thesis .
  qed
qed

text \<open>
  Claim C1, as amended. For every scene load that completes and every index \<open>i\<close>: slot
  \<open>i\<close> of the array \<^verbatim>\<open>flver\<close> is present if and only if entry \<open>i\<close> of the placement table
  exists, has \<^verbatim>\<open>type === 0\<close>, and the codec and the geometry decoder, applied to what
  \<^verbatim>\<open>lookupFile\<close> returned for the entry's path (the buffer, or \<^verbatim>\<open>undefined\<close> when the
  namespace has no such file), return geometry with at least one batch; the slot then
  holds that geometry, and the model holder has a model in exactly the present slots.
  The loop has no check for an absent file: in a load that completes, the codec and the
  decoder have returned for every model entry, so an absent file whose
  \<^verbatim>\<open>undefined\<close> makes the codec throw fails the load.
\<close>

theorem createScene_model_slots:
  "createScene c this_id = (tr, Inr renderer) \<longrightarrow>
     (\<exists>rs msb th flver.
         snd (await_Promise_all (arc_settles_first c) (fetchCRG1Arc c (this_id @ ''_arc.crg1''))
                (fetchLoose c ''mtd/Mtd.mtdbnd'') new_ResourceSystem) = Inr rs
       \<and> sceneRenderers renderer = [MSBRenderer th (modelHolder renderer) msb]
       \<and> snd (createScene_models c rs msb) = Inr flver
       \<and> modelHolder renderer = new_ModelHolder flver
       \<and> (\<forall>i g. js_get flver i = Some g \<longleftrightarrow>
             i < length (models msb) \<and> type (models msb ! i) = 0
             \<and> (\<exists>d. DCX_decompressBuffer c (lookupFile rs (flverPath (models msb ! i))) = Inr d
                    \<and> FLVER_parse c d = Inr g)
             \<and> 0 < length (batches g))
       \<and> (\<forall>i. js_get (flverData (modelHolder renderer)) i = map_option FLVERData (js_get flver i))
       \<and> (\<forall>i. i < length (models msb) \<and> type (models msb ! i) = 0 \<longrightarrow>
             (\<exists>d g. DCX_decompressBuffer c (lookupFile rs (flverPath (models msb ! i))) = Inr d
                    \<and> FLVER_parse c d = Inr g)))"
proof
  assume "createScene c this_id = (tr, Inr renderer)"
  then show "\<exists>rs msb th flver.
         snd (await_Promise_all (arc_settles_first c) (fetchCRG1Arc c (this_id @ ''_arc.crg1''))
                (fetchLoose c ''mtd/Mtd.mtdbnd'') new_ResourceSystem) = Inr rs
       \<and> sceneRenderers renderer = [MSBRenderer th (modelHolder renderer) msb]
       \<and> snd (createScene_models c rs msb) = Inr flver
       \<and> modelHolder renderer = new_ModelHolder flver
       \<and> (\<forall>i g. js_get flver i = Some g \<longleftrightarrow>
             i < length (models msb) \<and> type (models msb ! i) = 0
             \<and> (\<exists>d. DCX_decompressBuffer c (lookupFile rs (flverPath (models msb ! i))) = Inr d
                    \<and> FLVER_parse c d = Inr g)
             \<and> 0 < length (batches g))
       \<and> (\<forall>i. js_get (flverData (modelHolder renderer)) i = map_option FLVERData (js_get flver i))
       \<and> (\<forall>i. i < length (models msb) \<and> type (models msb ! i) = 0 \<longrightarrow>
             (\<exists>d g. DCX_decompressBuffer c (lookupFile rs (flverPath (models msb ! i))) = Inr d
                    \<and> FLVER_parse c d = Inr g))"
  proof (rule createScene_InrE)
    fix rs msb mtdBnd tm flver th0 th1 th2 th3 th4
    assume ph: "await_Promise_all (arc_settles_first c) (fetchCRG1Arc c (this_id @ ''_arc.crg1''))
           (fetchLoose c ''mtd/Mtd.mtdbnd'') new_ResourceSystem
       = ([Fetch (''dks/'' @ this_id @ ''_arc.crg1''), Fetch ''dks/mtd/Mtd.mtdbnd''], Inr rs)"
      and mo: "createScene_models c rs msb = (tm, Inr flver)"
      and re: "renderer = \<lparr>sceneRenderers = [MSBRenderer th4 (new_ModelHolder flver) msb],
                 textureHolder = th4, modelHolder = new_ModelHolder flver\<rparr>"
    from mo have lp: "for_io [0..<length (models msb)] (createScene_model c rs msb) [] = (tm, Inr flver)"
      by (simp add: createScene_models_def)
    note slots = createScene_models_loop [OF order_refl lp]
    have dec: "\<exists>d g. DCX_decompressBuffer c (lookupFile rs (flverPath (models msb ! i))) = Inr d
                    \<and> FLVER_parse c d = Inr g"
      if "i < length (models msb)" "type (models msb ! i) = 0" for i
      using createScene_models_decoded [OF order_refl lp that] .
    show ?thesis
      apply (rule exI [of _ rs], rule exI [of _ msb], rule exI [of _ th4], rule exI [of _ flver])
      using ph mo re slots dec
      apply (simp add: new_ModelHolder_slots)
      done
  qed
qed

theorem createScene_model_slots_witness:
  "createScene sample ''m10_01_00_00'' = (sample_trace, Inr sample_scene)
   \<and> js_get (flverData (modelHolder sample_scene)) 0 = Some (FLVERData \<lparr>batches = [98, 98]\<rparr>)
   \<and> js_get (flverData (modelHolder sample_scene)) 1 = None
   \<and> (\<exists>rs msb th flver.
         snd (await_Promise_all (arc_settles_first sample)
                (fetchCRG1Arc sample (''m10_01_00_00'' @ ''_arc.crg1''))
                (fetchLoose sample ''mtd/Mtd.mtdbnd'') new_ResourceSystem) = Inr rs
       \<and> sceneRenderers sample_scene = [MSBRenderer th (modelHolder sample_scene) msb]
       \<and> snd (createScene_models sample rs msb) = Inr flver
       \<and> modelHolder sample_scene = new_ModelHolder flver
       \<and> (\<forall>i g. js_get flver i = Some g \<longleftrightarrow>
             i < length (models msb) \<and> type (models msb ! i) = 0
             \<and> (\<exists>d. DCX_decompressBuffer sample (lookupFile rs (flverPath (models msb ! i))) = Inr d
                    \<and> FLVER_parse sample d = Inr g)
             \<and> 0 < length (batches g))
       \<and> (\<forall>i. js_get (flverData (modelHolder sample_scene)) i = map_option FLVERData (js_get flver i))
       \<and> (\<forall>i. i < length (models msb) \<and> type (models msb ! i) = 0 \<longrightarrow>
             (\<exists>d g. DCX_decompressBuffer sample (lookupFile rs (flverPath (models msb ! i))) = Inr d
                    \<and> FLVER_parse sample d = Inr g)))"
proof (intro conjI)
  show "createScene sample ''m10_01_00_00'' = (sample_trace, Inr sample_scene)"
    by (rule sample_createScene)
  show "js_get (flverData (modelHolder sample_scene)) 0 = Some (FLVERData \<lparr>batches = [98, 98]\<rparr>)"
    by (simp add: sample_scene_def js_get_def)
  show "js_get (flverData (modelHolder sample_scene)) 1 = None"
    by (simp add: sample_scene_def js_get_def)
  show "\<exists>rs msb th flver.
         snd (await_Promise_all (arc_settles_first sample)
                (fetchCRG1Arc sample (''m10_01_00_00'' @ ''_arc.crg1''))
                (fetchLoose sample ''mtd/Mtd.mtdbnd'') new_ResourceSystem) = Inr rs
       \<and> sceneRenderers sample_scene = [MSBRenderer th (modelHolder sample_scene) msb]
       \<and> snd (createScene_models sample rs msb) = Inr flver
       \<and> modelHolder sample_scene = new_ModelHolder flver
       \<and> (\<forall>i g. js_get flver i = Some g \<longleftrightarrow>
             i < length (models msb) \<and> type (models msb ! i) = 0
             \<and> (\<exists>d. DCX_decompressBuffer sample (lookupFile rs (flverPath (models msb ! i))) = Inr d
                    \<and> FLVER_parse sample d = Inr g)
             \<and> 0 < length (batches g))
       \<and> (\<forall>i. js_get (flverData (modelHolder sample_scene)) i = map_option FLVERData (js_get flver i))
       \<and> (\<forall>i. i < length (models msb) \<and> type (models msb ! i) = 0 \<longrightarrow>
             (\<exists>d g. DCX_decompressBuffer sample (lookupFile rs (flverPath (models msb ! i))) = Inr d
                    \<and> FLVER_parse sample d = Inr g))"
    using createScene_model_slots [of sample "''m10_01_00_00''" sample_trace sample_scene]
          sample_createScene
    by (rule mp)
qed

text \<open>
  The claim as it was written has an entry whose file is absent leave its slot empty
  without failing the load. Here the placement table's one entry is a model entry, its
  file is not in the namespace, and the load fails: \<^verbatim>\<open>undefined\<close> goes to the codec, which
  throws.
\<close>

theorem createScene_fails_on_absent_model_file:
  "snd (await_Promise_all (arc_settles_first sample_missing)
          (fetchCRG1Arc sample_missing (''m10_01_00_00'' @ ''_arc.crg1''))
          (fetchLoose sample_missing ''mtd/Mtd.mtdbnd'') new_ResourceSystem) = Inr sample_namespace
   \<and> MSB_parse sample_missing (lookupFile sample_namespace ''/map/MapStudio/m10_01_00_00.msb'')
        ''m10_01_00_00''
       = Inr \<lparr>models = [\<lparr>type = 0, flverPath = ''/model/missing.flver.dcx''\<rparr>]\<rparr>
   \<and> lookupFile sample_namespace ''/model/missing.flver.dcx'' = None
   \<and> createScene sample_missing ''m10_01_00_00''
       = ([Fetch ''dks/m10_01_00_00_arc.crg1'', Fetch ''dks/mtd/Mtd.mtdbnd'',
           Lookup ''/map/MapStudio/m10_01_00_00.msb'', Lookup ''mtd/Mtd.mtdbnd'',
           ConsoleLog [''mtd''], Lookup ''/model/missing.flver.dcx''],
          Inl (Thrown ''TypeError''))"
proof (intro conjI)
  show "snd (await_Promise_all (arc_settles_first sample_missing)
          (fetchCRG1Arc sample_missing (''m10_01_00_00'' @ ''_arc.crg1''))
          (fetchLoose sample_missing ''mtd/Mtd.mtdbnd'') new_ResourceSystem) = Inr sample_namespace"
    by (simp add: await_Promise_all_def fetchCRG1Arc_def fetchLoose_def pathBase_def
          sample_missing_def sample_def sample_namespace_def)
  show "MSB_parse sample_missing (lookupFile sample_namespace ''/map/MapStudio/m10_01_00_00.msb'')
        ''m10_01_00_00''
       = Inr \<lparr>models = [\<lparr>type = 0, flverPath = ''/model/missing.flver.dcx''\<rparr>]\<rparr>"
    by (simp add: sample_namespace_lookups sample_missing_def)
  show "lookupFile sample_namespace ''/model/missing.flver.dcx'' = None"
    by (simp add: sample_namespace_lookups)
  show "createScene sample_missing ''m10_01_00_00''
       = ([Fetch ''dks/m10_01_00_00_arc.crg1'', Fetch ''dks/mtd/Mtd.mtdbnd'',
           Lookup ''/map/MapStudio/m10_01_00_00.msb'', Lookup ''mtd/Mtd.mtdbnd'',
           ConsoleLog [''mtd''], Lookup ''/model/missing.flver.dcx''],
          Inl (Thrown ''TypeError''))"
    by (rule sample_missing_createScene)
qed

subsection \<open>The material-definition container\<close>

text \<open>
  Claim C3, as amended. Phase 4 decodes the mounted material-definition buffer: in every
  load that completes, \<^verbatim>\<open>BND3.parse\<close> has returned a container for what the namespace
  holds at \<^verbatim>\<open>mtd/Mtd.mtdbnd\<close>, and that container is written to the console, right after
  the two lookups. It is handed to nothing else: the renderer that \<^verbatim>\<open>createScene\<close>
  returns is the same whatever container the decoder returns; only the console line
  differs. (The constructors receive \<^verbatim>\<open>device, textureHolder, modelHolder, msb\<close> and
  \<^verbatim>\<open>device, textureHolder, modelHolder\<close>.)
\<close>

theorem createScene_mtdBnd_only_logged:
  "createScene c this_id = (tr, Inr renderer) \<longrightarrow>
     (\<exists>rs mtdBnd t.
         snd (await_Promise_all (arc_settles_first c) (fetchCRG1Arc c (this_id @ ''_arc.crg1''))
                (fetchLoose c ''mtd/Mtd.mtdbnd'') new_ResourceSystem) = Inr rs
       \<and> BND3_parse c (lookupFile rs ''mtd/Mtd.mtdbnd'') = Inr mtdBnd
       \<and> tr = [Fetch (''dks/'' @ this_id @ ''_arc.crg1''), Fetch ''dks/mtd/Mtd.mtdbnd'',
                Lookup (''/map/MapStudio/'' @ this_id @ ''.msb''), Lookup ''mtd/Mtd.mtdbnd'',
                ConsoleLog mtdBnd] @ t)
     \<and> (\<forall>other. \<exists>tr'.
           createScene (c\<lparr>BND3_parse := (\<lambda>b. Inr other)\<rparr>) this_id = (tr', Inr renderer)
           \<and> ConsoleLog other \<in> set tr')"
proof (intro impI conjI allI)
  assume a: "createScene c this_id = (tr, Inr renderer)"
  then show "\<exists>rs mtdBnd t.
         snd (await_Promise_all (arc_settles_first c) (fetchCRG1Arc c (this_id @ ''_arc.crg1''))
                (fetchLoose c ''mtd/Mtd.mtdbnd'') new_ResourceSystem) = Inr rs
       \<and> BND3_parse c (lookupFile rs ''mtd/Mtd.mtdbnd'') = Inr mtdBnd
       \<and> tr = [Fetch (''dks/'' @ this_id @ ''_arc.crg1''), Fetch ''dks/mtd/Mtd.mtdbnd'',
                Lookup (''/map/MapStudio/'' @ this_id @ ''.msb''), Lookup ''mtd/Mtd.mtdbnd'',
                ConsoleLog mtdBnd] @ t"
    by (rule createScene_InrE) (simp (no_asm_simp))
  fix other
  from a show "\<exists>tr'.
           createScene (c\<lparr>BND3_parse := (\<lambda>b. Inr other)\<rparr>) this_id = (tr', Inr renderer)
           \<and> ConsoleLog other \<in> set tr'"
    by (rule createScene_BND3_parse_replaced)
qed

theorem createScene_mtdBnd_only_logged_witness:
  "createScene sample ''m10_01_00_00'' = (sample_trace, Inr sample_scene)
   \<and> (\<exists>rs mtdBnd t.
         snd (await_Promise_all (arc_settles_first sample)
                (fetchCRG1Arc sample (''m10_01_00_00'' @ ''_arc.crg1''))
                (fetchLoose sample ''mtd/Mtd.mtdbnd'') new_ResourceSystem) = Inr rs
       \<and> BND3_parse sample (lookupFile rs ''mtd/Mtd.mtdbnd'') = Inr mtdBnd
       \<and> sample_trace
           = [Fetch (''dks/'' @ ''m10_01_00_00'' @ ''_arc.crg1''), Fetch ''dks/mtd/Mtd.mtdbnd'',
              Lookup (''/map/MapStudio/'' @ ''m10_01_00_00'' @ ''.msb''), Lookup ''mtd/Mtd.mtdbnd'',
              ConsoleLog mtdBnd] @ t)
   \<and> (\<forall>other. \<exists>tr'.
         createScene (sample\<lparr>BND3_parse := (\<lambda>b. Inr other)\<rparr>) ''m10_01_00_00''
           = (tr', Inr sample_scene)
         \<and> ConsoleLog other \<in> set tr')"
  using createScene_mtdBnd_only_logged [of sample "''m10_01_00_00''" sample_trace sample_scene] sample_createScene
  by blast

text \<open>
  The claim as it was written has the decoded container forwarded to the rendering
  collaborator. Two material decoders that return different containers give the same
  scene, and each container is found in the console output only.
\<close>

theorem createScene_same_scene_for_another_mtdBnd:
  "snd (createScene sample ''m10_01_00_00'') = Inr sample_scene
   \<and> snd (createScene sample_other_mtd ''m10_01_00_00'') = Inr sample_scene
   \<and> ConsoleLog [''mtd''] \<in> set (fst (createScene sample ''m10_01_00_00''))
   \<and> ConsoleLog [''other''] \<in> set (fst (createScene sample_other_mtd ''m10_01_00_00''))
   \<and> BND3_parse sample (Some ''mtd'') = Inr [''mtd'']
   \<and> BND3_parse sample_other_mtd (Some ''mtd'') = Inr [''other'']"
proof -
  from createScene_BND3_parse_replaced [OF sample_createScene, of "[''other'']"]
  obtain tr' where "createScene sample_other_mtd ''m10_01_00_00'' = (tr', Inr sample_scene)"
    "ConsoleLog [''other''] \<in> set tr'"
    by (auto simp: sample_other_mtd_def)
  then have o: "snd (createScene sample_other_mtd ''m10_01_00_00'') = Inr sample_scene"
    "ConsoleLog [''other''] \<in> set (fst (createScene sample_other_mtd ''m10_01_00_00''))"
    by simp_all
  have s: "snd (createScene sample ''m10_01_00_00'') = Inr sample_scene"
    "ConsoleLog [''mtd''] \<in> set (fst (createScene sample ''m10_01_00_00''))"
    by (simp_all add: sample_createScene sample_trace_def)
  have p: "BND3_parse sample (Some ''mtd'') = Inr [''mtd'']"
    "BND3_parse sample_other_mtd (Some ''mtd'') = Inr [''other'']"
    by (simp_all add: sample_other_mtd_def sample_def)
  from o s p show ?thesis by (intro conjI)
qed

subsection \<open>The logical paths\<close>

text \<open>
  Claim C4, as amended. For every scene identifier and every load that completes, the
  namespace is asked, in this order, for: the placement table at
  \<^verbatim>\<open>/map/MapStudio/<sceneId>.msb\<close> (no base in front: \<^verbatim>\<open>dks\<close> is prefixed to the two
  download URLs only), \<^verbatim>\<open>mtd/Mtd.mtdbnd\<close>, the model file of every model entry in table
  order, then exactly four header and data pairs
  \<^verbatim>\<open>/map/<mapGroup>/<mapGroup>_000N.tpfbhd\<close> and \<^verbatim>\<open>.tpfbdt\<close> for N from 0 to 3, and last the
  loose container \<^verbatim>\<open>/map/<mapGroup>/<mapGroup>_9999.tpf.dcx\<close>, where \<^verbatim>\<open>mapGroup\<close> is the
  first three characters of the identifier.
\<close>

theorem createScene_lookup_paths:
  "(createScene c this_id = (tr, Inr renderer) \<longrightarrow>
     (\<exists>th mh msb.
         sceneRenderers renderer = [MSBRenderer th mh msb]
       \<and> lookups tr
           = [''/map/MapStudio/'' @ this_id @ ''.msb'', ''mtd/Mtd.mtdbnd'']
             @ map flverPath (filter (\<lambda>m. type m = 0) (models msb))
             @ [spec_bank_path this_id ''_0000.tpfbhd'', spec_bank_path this_id ''_0000.tpfbdt'',
                spec_bank_path this_id ''_0001.tpfbhd'', spec_bank_path this_id ''_0001.tpfbdt'',
                spec_bank_path this_id ''_0002.tpfbhd'', spec_bank_path this_id ''_0002.tpfbdt'',
                spec_bank_path this_id ''_0003.tpfbhd'', spec_bank_path this_id ''_0003.tpfbdt'',
                spec_bank_path this_id ''_9999.tpf.dcx'']))
   \<and> spec_bank_path this_id rest = ''/map/'' @ take 3 this_id @ ''/'' @ take 3 this_id @ rest"
proof (intro conjI impI)
  assume "createScene c this_id = (tr, Inr renderer)"
  then show "\<exists>th mh msb.
         sceneRenderers renderer = [MSBRenderer th mh msb]
       \<and> lookups tr
           = [''/map/MapStudio/'' @ this_id @ ''.msb'', ''mtd/Mtd.mtdbnd'']
             @ map flverPath (filter (\<lambda>m. type m = 0) (models msb))
             @ [spec_bank_path this_id ''_0000.tpfbhd'', spec_bank_path this_id ''_0000.tpfbdt'',
                spec_bank_path this_id ''_0001.tpfbhd'', spec_bank_path this_id ''_0001.tpfbdt'',
                spec_bank_path this_id ''_0002.tpfbhd'', spec_bank_path this_id ''_0002.tpfbdt'',
                spec_bank_path this_id ''_0003.tpfbhd'', spec_bank_path this_id ''_0003.tpfbdt'',
                spec_bank_path this_id ''_9999.tpf.dcx'']"
  proof (rule createScene_InrE)
    fix rs msb mtdBnd tm flver th0 th1 th2 th3 th4
    assume mo: "createScene_models c rs msb = (tm, Inr flver)"
      and re: "renderer = \<lparr>sceneRenderers = [MSBRenderer th4 (new_ModelHolder flver) msb],
                 textureHolder = th4, modelHolder = new_ModelHolder flver\<rparr>"
      and tr: "tr = [Fetch (''dks/'' @ this_id @ ''_arc.crg1''), Fetch ''dks/mtd/Mtd.mtdbnd'',
           Lookup (''/map/MapStudio/'' @ this_id @ ''.msb''), Lookup ''mtd/Mtd.mtdbnd'',
           ConsoleLog mtdBnd]
          @ tm
          @ map Lookup
             [spec_bank_path this_id ''_0000.tpfbhd'', spec_bank_path this_id ''_0000.tpfbdt'',
              spec_bank_path this_id ''_0001.tpfbhd'', spec_bank_path this_id ''_0001.tpfbdt'',
              spec_bank_path this_id ''_0002.tpfbhd'', spec_bank_path this_id ''_0002.tpfbdt'',
              spec_bank_path this_id ''_0003.tpfbhd'', spec_bank_path this_id ''_0003.tpfbdt'',
              spec_bank_path this_id ''_9999.tpf.dcx'']"
    from mo have lp: "for_io [0..<length (models msb)] (createScene_model c rs msb) [] = (tm, Inr flver)"
      by (simp add: createScene_models_def)
    from createScene_models_loop [OF order_refl lp]
    have tm: "lookups tm = map flverPath (filter (\<lambda>m. type m = 0) (models msb))" by simp
    show ?thesis
      apply (rule exI [of _ th4], rule exI [of _ "new_ModelHolder flver"], rule exI [of _ msb])
      using re tr tm
      apply simp
      done
  qed
next
  show "spec_bank_path this_id rest = ''/map/'' @ take 3 this_id @ ''/'' @ take 3 this_id @ rest"
    by (simp add: spec_bank_path_def)
qed

theorem createScene_lookup_paths_witness:
  "createScene sample ''m10_01_00_00'' = (sample_trace, Inr sample_scene)
   \<and> take 3 ''m10_01_00_00'' = ''m10''
   \<and> (\<exists>th mh msb.
         sceneRenderers sample_scene = [MSBRenderer th mh msb]
       \<and> lookups sample_trace
           = [''/map/MapStudio/'' @ ''m10_01_00_00'' @ ''.msb'', ''mtd/Mtd.mtdbnd'']
             @ map flverPath (filter (\<lambda>m. type m = 0) (models msb))
             @ [spec_bank_path ''m10_01_00_00'' ''_0000.tpfbhd'', spec_bank_path ''m10_01_00_00'' ''_0000.tpfbdt'',
                spec_bank_path ''m10_01_00_00'' ''_0001.tpfbhd'', spec_bank_path ''m10_01_00_00'' ''_0001.tpfbdt'',
                spec_bank_path ''m10_01_00_00'' ''_0002.tpfbhd'', spec_bank_path ''m10_01_00_00'' ''_0002.tpfbdt'',
                spec_bank_path ''m10_01_00_00'' ''_0003.tpfbhd'', spec_bank_path ''m10_01_00_00'' ''_0003.tpfbdt'',
                spec_bank_path ''m10_01_00_00'' ''_9999.tpf.dcx''])"
proof (intro conjI)
  show "createScene sample ''m10_01_00_00'' = (sample_trace, Inr sample_scene)"
    by (rule sample_createScene)
  show "take 3 ''m10_01_00_00'' = ''m10''"
    by simp
  from createScene_lookup_paths [of sample "''m10_01_00_00''" sample_trace sample_scene "[]"]
  have "createScene sample ''m10_01_00_00'' = (sample_trace, Inr sample_scene) \<longrightarrow>
     (\<exists>th mh msb.
         sceneRenderers sample_scene = [MSBRenderer th mh msb]
       \<and> lookups sample_trace
           = [''/map/MapStudio/'' @ ''m10_01_00_00'' @ ''.msb'', ''mtd/Mtd.mtdbnd'']
             @ map flverPath (filter (\<lambda>m. type m = 0) (models msb))
             @ [spec_bank_path ''m10_01_00_00'' ''_0000.tpfbhd'', spec_bank_path ''m10_01_00_00'' ''_0000.tpfbdt'',
                spec_bank_path ''m10_01_00_00'' ''_0001.tpfbhd'', spec_bank_path ''m10_01_00_00'' ''_0001.tpfbdt'',
                spec_bank_path ''m10_01_00_00'' ''_0002.tpfbhd'', spec_bank_path ''m10_01_00_00'' ''_0002.tpfbdt'',
                spec_bank_path ''m10_01_00_00'' ''_0003.tpfbhd'', spec_bank_path ''m10_01_00_00'' ''_0003.tpfbdt'',
                spec_bank_path ''m10_01_00_00'' ''_9999.tpf.dcx''])"
    by (rule conjunct1)
  from this sample_createScene
  show "\<exists>th mh msb.
         sceneRenderers sample_scene = [MSBRenderer th mh msb]
       \<and> lookups sample_trace
           = [''/map/MapStudio/'' @ ''m10_01_00_00'' @ ''.msb'', ''mtd/Mtd.mtdbnd'']
             @ map flverPath (filter (\<lambda>m. type m = 0) (models msb))
             @ [spec_bank_path ''m10_01_00_00'' ''_0000.tpfbhd'', spec_bank_path ''m10_01_00_00'' ''_0000.tpfbdt'',
                spec_bank_path ''m10_01_00_00'' ''_0001.tpfbhd'', spec_bank_path ''m10_01_00_00'' ''_0001.tpfbdt'',
                spec_bank_path ''m10_01_00_00'' ''_0002.tpfbhd'', spec_bank_path ''m10_01_00_00'' ''_0002.tpfbdt'',
                spec_bank_path ''m10_01_00_00'' ''_0003.tpfbhd'', spec_bank_path ''m10_01_00_00'' ''_0003.tpfbdt'',
                spec_bank_path ''m10_01_00_00'' ''_9999.tpf.dcx'']"
    by (rule mp)
qed

text \<open>
  The claim as it was written has the placement table looked up at
  \<^verbatim>\<open><base>/map/MapStudio/<sceneId>.msb\<close>. For \<^verbatim>\<open>m10_01_00_00\<close> the first lookup is
  \<^verbatim>\<open>/map/MapStudio/m10_01_00_00.msb\<close>, and the path with the base \<^verbatim>\<open>dks\<close> in front is
  never looked up.
\<close>

theorem createScene_placement_table_path_has_no_base:
  "createScene sample ''m10_01_00_00'' = (sample_trace, Inr sample_scene)
   \<and> hd (lookups sample_trace) = ''/map/MapStudio/m10_01_00_00.msb''
   \<and> pathBase @ ''/map/MapStudio/'' @ ''m10_01_00_00'' @ ''.msb''
        = ''dks/map/MapStudio/m10_01_00_00.msb''
   \<and> ''dks/map/MapStudio/m10_01_00_00.msb'' \<notin> set (lookups sample_trace)"
  by (simp add: sample_createScene sample_trace_def pathBase_def)

end
